theory Spec2Isabelle
  imports Main "HOL-Library.Sublist"
begin

section \<open>Python built-ins used by \<^verbatim>\<open>Backend/app.py\<close>\<close>

subsection \<open>Strings\<close>

text \<open>
  A Python \<^verbatim>\<open>str\<close> is modelled as a \<^typ>\<open>string\<close>; a \<^typ>\<open>char\<close> is read as the code point
  of the same number (U+0000 to U+00FF).  \<^verbatim>\<open>str.lower()\<close> on that range maps
  \<^verbatim>\<open>A-Z\<close> and the upper-case letters U+00C0 to U+00DE (without the multiplication sign
  U+00D7) to the code point 32 above, and leaves every other character as it is.
\<close>

definition lower_char :: "char \<Rightarrow> char" where
  "lower_char c =
     (let n = (of_char c :: nat)
      in if (65 \<le> n \<and> n \<le> 90) \<or> (192 \<le> n \<and> n \<le> 222 \<and> n \<noteq> 215)
         then char_of (n + 32) else c)"

definition lower :: "string \<Rightarrow> string" where
  "lower s = map lower_char s"

text \<open>\<^verbatim>\<open>needle in haystack\<close> on two strings: some suffix of the haystack starts with the needle.\<close>

fun starts_with :: "string \<Rightarrow> string \<Rightarrow> bool" where
  "starts_with [] s = True"
| "starts_with (c # cs) [] = False"
| "starts_with (c # cs) (d # ds) = (c = d \<and> starts_with cs ds)"

fun str_in :: "string \<Rightarrow> string \<Rightarrow> bool" where
  "str_in needle [] = (needle = [])"
| "str_in needle (d # ds) = (starts_with needle (d # ds) \<or> str_in needle ds)"

text \<open>\<^verbatim>\<open>s.replace(' ', '%20')\<close>: every space becomes the three characters \<^verbatim>\<open>%20\<close>.\<close>

definition replace_space :: "string \<Rightarrow> string" where
  "replace_space s = concat (map (\<lambda>c. if c = CHR '' '' then ''%20'' else [c]) s)"

text \<open>\<^verbatim>\<open>str(n)\<close> of an integer, as in an f-string.\<close>

definition digit_char :: "int \<Rightarrow> char" where
  "digit_char d = char_of (48 + d)"

function str_digits :: "int \<Rightarrow> string" where
  "str_digits n =
     (if n < 10 then [digit_char n] else str_digits (n div 10) @ [digit_char (n mod 10)])"
  by pat_completeness auto
termination
  by (relation "measure nat") auto

declare str_digits.simps [simp del]

definition str_int :: "int \<Rightarrow> string" where
  "str_int n = (if n < 0 then ''-'' @ str_digits (- n) else str_digits n)"

subsection \<open>Floating-point numbers\<close>

text \<open>
  A Python \<^verbatim>\<open>float\<close> is an IEEE 754 binary64 value.  \<open>Finite s m e\<close> is the number
  \<open>(-1)\<^sup>s \<sqdot> m \<sqdot> 2\<^sup>e\<close> with \<open>m\<close> positive and odd, or \<open>m = 0\<close> and \<open>e = 0\<close> for the two
  zeros, so that every value has one representation.
\<close>

datatype pyfloat = Finite bool int int | Infinity bool | NaN

function bit_length :: "int \<Rightarrow> nat" where
  "bit_length n = (if n \<le> 0 then 0 else Suc (bit_length (n div 2)))"
  by pat_completeness auto
termination
  by (relation "measure nat") auto

declare bit_length.simps [simp del]

function strip_zeros :: "int \<Rightarrow> int \<Rightarrow> int \<times> int" where
  "strip_zeros m e =
     (if m \<le> 0 then (0, 0)
      else if even m then strip_zeros (m div 2) (e + 1)
      else (m, e))"
  by pat_completeness auto
termination
  by (relation "measure (\<lambda>(m, e). nat m)") auto

declare strip_zeros.simps [simp del]

text \<open>\<open>scaled e p q\<close> is the fraction \<open>p / (q \<sqdot> 2\<^sup>e)\<close> as a numerator and a denominator.\<close>

definition scaled :: "int \<Rightarrow> int \<Rightarrow> int \<Rightarrow> int \<times> int" where
  "scaled e p q = (if 0 \<le> e then (p, q * 2 ^ nat e) else (p * 2 ^ nat (- e), q))"

text \<open>
  The binary64 value nearest to \<open>p / q\<close> (for \<open>p \<ge> 0\<close> and \<open>q > 0\<close>), ties to the even
  significand: 53 significant bits, no exponent below \<open>-1074\<close>; \<open>None\<close> when the rounded
  value reaches \<open>2\<^sup>1\<^sup>0\<^sup>2\<^sup>4\<close>, the overflow threshold.
\<close>

definition round_ratio :: "int \<Rightarrow> int \<Rightarrow> (int \<times> int) option" where
  "round_ratio p q =
     (if p \<le> 0 then Some (0, 0)
      else
        let e1 = int (bit_length p) - int (bit_length q) - 53;
            (n1, d1) = scaled e1 p q;
            e2 = (if 2 ^ 53 \<le> n1 div d1 then e1 + 1 else e1);
            e = max e2 (- 1074);
            (n, d) = scaled e p q;
            k = n div d;
            r = n mod d;
            k' = (if d < 2 * r \<or> (2 * r = d \<and> odd k) then k + 1 else k)
        in if 971 < e \<or> (e = 971 \<and> 2 ^ 53 \<le> k') then None
           else Some (strip_zeros k' e))"

text \<open>The value of the decimal literal with digits \<open>m\<close> and \<open>k\<close> digits after the point.\<close>

definition decimal :: "int \<Rightarrow> nat \<Rightarrow> pyfloat" where
  "decimal m k =
     (case round_ratio m (10 ^ k) of
        None \<Rightarrow> Infinity False
      | Some (n, e) \<Rightarrow> Finite False n e)"

text \<open>The exact value \<open>m \<sqdot> 2\<^sup>e\<close> rounded, with the sign \<open>s\<close>.\<close>

definition round_dyadic :: "bool \<Rightarrow> int \<Rightarrow> int \<Rightarrow> pyfloat" where
  "round_dyadic s m e =
     (case (let (p, q) = scaled (- e) m 1 in round_ratio p q) of
        None \<Rightarrow> Infinity s
      | Some (n, e') \<Rightarrow> Finite s n e')"

text \<open>\<^verbatim>\<open>x * y\<close> on floats.\<close>

fun float_mul :: "pyfloat \<Rightarrow> pyfloat \<Rightarrow> pyfloat" where
  "float_mul NaN y = NaN"
| "float_mul x NaN = NaN"
| "float_mul (Infinity s) (Infinity t) = Infinity (s \<noteq> t)"
| "float_mul (Infinity s) (Finite t m e) = (if m = 0 then NaN else Infinity (s \<noteq> t))"
| "float_mul (Finite s m e) (Infinity t) = (if m = 0 then NaN else Infinity (s \<noteq> t))"
| "float_mul (Finite s m e) (Finite t n f) = round_dyadic (s \<noteq> t) (m * n) (e + f)"

text \<open>
  \<^verbatim>\<open>float(n)\<close> of an integer, also the conversion of an integer operand of a mixed
  operation; \<open>None\<close> is Python's \<^verbatim>\<open>OverflowError\<close>.
\<close>

definition float_of_int :: "int \<Rightarrow> pyfloat option" where
  "float_of_int n =
     (case round_ratio \<bar>n\<bar> 1 of
        None \<Rightarrow> None
      | Some (m, e) \<Rightarrow> Some (Finite (n < 0) m e))"

text \<open>
  \<^verbatim>\<open>x - y\<close> on floats: the exact difference, rounded; a zero result is \<open>+0.0\<close> unless
  both \<open>x\<close> and \<open>- y\<close> are \<open>-0.0\<close>.
\<close>

fun float_sub :: "pyfloat \<Rightarrow> pyfloat \<Rightarrow> pyfloat" where
  "float_sub NaN y = NaN"
| "float_sub x NaN = NaN"
| "float_sub (Infinity s) (Infinity t) = (if s = t then NaN else Infinity s)"
| "float_sub (Infinity s) (Finite t m e) = Infinity s"
| "float_sub (Finite s m e) (Infinity t) = Infinity (\<not> t)"
| "float_sub (Finite s m e) (Finite t n f) =
     (let g = min e f;
          a = (if s then - 1 else 1) * m * 2 ^ nat (e - g);
          b = (if t then - 1 else 1) * n * 2 ^ nat (f - g);
          d = a - b
      in if d = 0 then Finite (m = 0 \<and> n = 0 \<and> s \<and> \<not> t) 0 0
         else round_dyadic (d < 0) \<bar>d\<bar> g)"

text \<open>\<^verbatim>\<open>x < y\<close> on floats: false when an operand is not a number.\<close>

fun float_lt :: "pyfloat \<Rightarrow> pyfloat \<Rightarrow> bool" where
  "float_lt NaN y = False"
| "float_lt x NaN = False"
| "float_lt (Infinity s) (Infinity t) = (s \<and> \<not> t)"
| "float_lt (Infinity s) (Finite t m e) = s"
| "float_lt (Finite s m e) (Infinity t) = (\<not> t)"
| "float_lt (Finite s m e) (Finite t n f) =
     (let g = min e f
      in (if s then - 1 else 1) * m * 2 ^ nat (e - g)
         < (if t then - 1 else 1) * n * 2 ^ nat (f - g))"

subsection \<open>\<^verbatim>\<open>repr\<close> of a float, as an f-string inserts it\<close>

text \<open>
  The digits are the shortest decimal that rounds back to the float, the nearest to it
  among those of that length.  \<open>decpt\<close> is the position of the decimal point: for a
  positive \<open>p / q\<close> the \<open>t\<close> with \<open>10\<^bsup>t-1\<^esup> \<le> p / q < 10\<^sup>t\<close>.
\<close>

function digits10 :: "int \<Rightarrow> nat" where
  "digits10 n = (if n < 10 then 1 else Suc (digits10 (n div 10)))"
  by pat_completeness auto
termination
  by (relation "measure nat") auto

declare digits10.simps [simp del]

function lead_zeros :: "int \<Rightarrow> int \<Rightarrow> nat" where
  "lead_zeros p q = (if p \<le> 0 \<or> q \<le> 10 * p then 0 else Suc (lead_zeros (10 * p) q))"
  by pat_completeness auto
termination
  by (relation "measure (\<lambda>(p, q). nat (q - p))") auto

declare lead_zeros.simps [simp del]

definition decpt_of :: "int \<Rightarrow> int \<Rightarrow> int" where
  "decpt_of p q = (if q \<le> p then int (digits10 (p div q)) else - int (lead_zeros p q))"

text \<open>\<open>scaled10 k p q\<close> is the fraction \<open>(p / q) \<sqdot> 10\<^sup>k\<close>.\<close>

definition scaled10 :: "int \<Rightarrow> int \<Rightarrow> int \<Rightarrow> int \<times> int" where
  "scaled10 k p q = (if 0 \<le> k then (p * 10 ^ nat k, q) else (p, q * 10 ^ nat (- k)))"

definition round_trips :: "int \<times> int \<Rightarrow> int \<Rightarrow> int \<Rightarrow> bool" where
  "round_trips x c k = (let (a, b) = scaled10 k c 1 in round_ratio a b = Some x)"

text \<open>
  \<open>shortest fuel n x p q t\<close> tries \<open>n\<close>, \<open>n + 1\<close>, ... significant digits for the float \<open>x\<close>
  of value \<open>p / q\<close>; with no fuel left it takes the nearest decimal of \<open>n\<close> digits (17
  digits always round back).  The result is the integer of the digits.
\<close>

primrec shortest :: "nat \<Rightarrow> int \<Rightarrow> int \<times> int \<Rightarrow> int \<Rightarrow> int \<Rightarrow> int \<Rightarrow> int \<times> int" where
  "shortest 0 n x p q t =
     (let (a, b) = scaled10 (n - t) p q;
          lo = a div b;
          r = a mod b
      in (if 2 * r < b \<or> (2 * r = b \<and> even lo) then lo else lo + 1, n))"
| "shortest (Suc fuel) n x p q t =
     (let (a, b) = scaled10 (n - t) p q;
          lo = a div b;
          r = a mod b;
          lo_ok = round_trips x lo (t - n);
          hi_ok = (r \<noteq> 0 \<and> round_trips x (lo + 1) (t - n))
      in if lo_ok \<and> hi_ok then
           (if 2 * r < b \<or> (2 * r = b \<and> even lo) then lo else lo + 1, n)
         else if lo_ok then (lo, n)
         else if hi_ok then (lo + 1, n)
         else shortest fuel (n + 1) x p q t)"

definition strip_trailing_zeros :: "string \<Rightarrow> string" where
  "strip_trailing_zeros s = rev (dropWhile (\<lambda>c. c = CHR ''0'') (rev s))"

definition format_digits :: "string \<Rightarrow> int \<Rightarrow> string" where
  "format_digits ds decpt =
     (if decpt \<le> - 4 \<or> 16 < decpt then
        [hd ds] @ (if tl ds = [] then [] else ''.'' @ tl ds) @ ''e''
          @ (if decpt - 1 < 0 then ''-'' else ''+'')
          @ (if \<bar>decpt - 1\<bar> < 10 then ''0'' else []) @ str_int \<bar>decpt - 1\<bar>
      else if decpt \<le> 0 then ''0.'' @ replicate (nat (- decpt)) CHR ''0'' @ ds
      else if nat decpt < length ds then take (nat decpt) ds @ ''.'' @ drop (nat decpt) ds
      else ds @ replicate (nat decpt - length ds) CHR ''0'' @ ''.0'')"

fun float_repr :: "pyfloat \<Rightarrow> string" where
  "float_repr NaN = ''nan''"
| "float_repr (Infinity s) = (if s then ''-inf'' else ''inf'')"
| "float_repr (Finite s m e) =
     (if s then ''-'' else [])
     @ (if m = 0 then ''0.0''
        else
          let (p, q) = scaled (- e) m 1;
              t = decpt_of p q;
              (c, n) = shortest 16 1 (m, e) p q t;
              all_digits = str_int c
          in format_digits (strip_trailing_zeros all_digits)
               (t + int (length all_digits) - n))"

subsection \<open>\<^verbatim>\<open>float(s)\<close> of a string\<close>

text \<open>
  Surrounding whitespace is dropped; then an optional sign, and either \<^verbatim>\<open>inf\<close>,
  \<^verbatim>\<open>infinity\<close> or \<^verbatim>\<open>nan\<close> in any case, or a decimal number: digits with an optional
  point and an optional exponent, single underscores allowed between digits.  \<open>None\<close> is
  Python's \<^verbatim>\<open>ValueError\<close>.  A value beyond the range becomes an infinity.

  The whitespace that \<^verbatim>\<open>float\<close> drops is not that of \<^verbatim>\<open>str.isspace\<close>: below U+007F it is
  the tab, the line feed, the vertical tab, the form feed, the carriage return and the
  space only, so that the separators U+001C to U+001F are an error; above, it is the
  Unicode whitespace, of which U+0085 and U+00A0 are in the range of a \<^typ>\<open>char\<close>.
\<close>

definition is_space :: "char \<Rightarrow> bool" where
  "is_space c =
     (let n = (of_char c :: nat)
      in (9 \<le> n \<and> n \<le> 13) \<or> n = 32 \<or> n = 133 \<or> n = 160)"

definition strip :: "string \<Rightarrow> string" where
  "strip s = rev (dropWhile is_space (rev (dropWhile is_space s)))"

definition is_digit :: "char \<Rightarrow> bool" where
  "is_digit c = (let n = (of_char c :: nat) in 48 \<le> n \<and> n \<le> 57)"

fun scan_more :: "string \<Rightarrow> string \<times> string" where
  "scan_more [] = ([], [])"
| "scan_more [c] = (if is_digit c then ([c], []) else ([], [c]))"
| "scan_more (c # d # r) =
     (if is_digit c then (let (ds, r') = scan_more (d # r) in (c # ds, r'))
      else if c = CHR ''_'' \<and> is_digit d then (let (ds, r') = scan_more r in (d # ds, r'))
      else ([], c # d # r))"

definition scan_digits :: "string \<Rightarrow> string \<times> string" where
  "scan_digits s = (case s of [] \<Rightarrow> ([], []) | c # r \<Rightarrow> if is_digit c then scan_more s else ([], s))"

definition int_of_digits :: "string \<Rightarrow> int" where
  "int_of_digits ds = foldl (\<lambda>a c. 10 * a + (of_char c - 48)) 0 ds"

definition scan_exponent :: "string \<Rightarrow> int option" where
  "scan_exponent s =
     (case s of
        [] \<Rightarrow> Some 0
      | c # r \<Rightarrow>
          if c = CHR ''e'' \<or> c = CHR ''E'' then
            (let (neg, r1) = (case r of
                                [] \<Rightarrow> (False, r)
                              | d # r' \<Rightarrow> if d = CHR ''-'' then (True, r')
                                          else if d = CHR ''+'' then (False, r')
                                          else (False, r));
                 (xs, r2) = scan_digits r1
             in if xs = [] \<or> r2 \<noteq> [] then None
                else Some ((if neg then - 1 else 1) * int_of_digits xs))
          else None)"

definition scan_number :: "bool \<Rightarrow> string \<Rightarrow> pyfloat option" where
  "scan_number neg s =
     (let (ip, r1) = scan_digits s;
          (fp, r2) = (case r1 of
                        [] \<Rightarrow> ([], r1)
                      | c # r \<Rightarrow> if c = CHR ''.'' then scan_digits r else ([], r1))
      in if ip = [] \<and> fp = [] then None
         else case scan_exponent r2 of
                None \<Rightarrow> None
              | Some x \<Rightarrow>
                  (let (a, b) = scaled10 (x - int (length fp)) (int_of_digits (ip @ fp)) 1
                   in case round_ratio a b of
                        None \<Rightarrow> Some (Infinity neg)
                      | Some (m, e) \<Rightarrow> Some (Finite neg m e)))"

definition float_of_str :: "string \<Rightarrow> pyfloat option" where
  "float_of_str s =
     (let t = strip s;
          (neg, u) = (case t of
                        [] \<Rightarrow> (False, t)
                      | c # r \<Rightarrow> if c = CHR ''-'' then (True, r)
                                  else if c = CHR ''+'' then (False, r)
                                  else (False, t))
      in if lower u = ''inf'' \<or> lower u = ''infinity'' then Some (Infinity neg)
         else if lower u = ''nan'' then Some NaN
         else scan_number neg u)"

section \<open>The data model of \<^verbatim>\<open>Backend/app.py\<close>\<close>

datatype pyexn =
    TypeError | ValueError | KeyError | IndexError | OverflowError | AttributeError
  | RecursionError | BadRequest

text \<open>
  A JSON value: the body of a request as its text says it, the value that
  \<^verbatim>\<open>request.get_json()\<close> makes of it, and what \<^verbatim>\<open>jsonify\<close> takes.  An object is the list of
  its members in the order of the text.  The text may name a key twice; the dictionary
  that \<^verbatim>\<open>json.loads\<close> builds then holds the last value, so a lookup takes the last member
  with the key.
\<close>

datatype json =
    JNull
  | JBool bool
  | JInt int
  | JFloat pyfloat
  | JStr string
  | JList "json list"
  | JDict "(string \<times> json) list"

text \<open>A number of a list literal that mixes \<^verbatim>\<open>0\<close> and \<^verbatim>\<open>3.0\<close>.\<close>

datatype pynum = PInt int | PFloat pyfloat

subsection \<open>The dictionaries the pipeline builds, one record for each literal\<close>

record image =
  url :: string
  style :: string
  emotion_accuracy :: pyfloat
  technical_quality :: pyfloat

record video =
  url :: string
  camera_work :: string
  motion_quality :: pyfloat
  emotional_sync :: pyfloat

record visual_outputs =
  images :: "image list"
  videos :: "video list"

record lipsync_data =
  phonemes :: "string list"
  timestamps :: "pyfloat list"
  mouth_shapes :: "string list"

record voice =
  url :: string
  emotion_match :: pyfloat
  naturalness :: pyfloat
  lipsync_data :: lipsync_data

record music =
  url :: string
  mood_alignment :: pyfloat
  emotional_progression :: bool
  adaptive_sync :: bool

record audio_outputs =
  voice :: voice
  music :: music

record primary_content =
  video :: string
  audio :: string
  voice :: string

record synchronized_timeline =
  total_duration :: pyfloat
  emotion_peaks :: "pyfloat list"
  camera_transitions :: "pynum list"
  audio_sync_points :: "pynum list"

record fusion_metadata =
  visual_audio_sync :: pyfloat
  emotional_coherence :: pyfloat
  technical_quality :: pyfloat
  creative_score :: pyfloat

record render_ready =
  flux_pipeline :: bool
  lipsync_enabled :: bool
  seedance_processing :: bool
  webgl_optimized :: bool

record fused_output =
  primary_content :: primary_content
  synchronized_timeline :: synchronized_timeline
  fusion_metadata :: fusion_metadata
  render_ready :: render_ready

record emotion_context =
  emotion :: string
  intensity :: pyfloat

record metadata =
  enhanced_prompt :: string
  models_used :: "(string \<times> string) list"
  emotion_context :: emotion_context
  processing_stages :: "string list"

subsection \<open>The two dataclasses\<close>

record GenerationResult =
  request_id :: string
  scene_id :: string
  status :: string
  outputs :: fused_output
  metadata :: metadata
  processing_time :: pyfloat

text \<open>
  A dataclass does not check the types of its fields.  The pipeline works on a request
  whose fields have the annotated types; the HTTP handler fills the fields with whatever
  the JSON body holds.  \<open>'s\<close> is the type of the fields annotated \<^verbatim>\<open>str\<close>, \<open>'m\<close> that of
  \<^verbatim>\<open>models\<close> and \<open>'p\<close> that of \<^verbatim>\<open>parameters\<close>.
\<close>

record ('s, 'm, 'p) GenerationRequest =
  scene_id :: 's
  text_prompt :: 's
  emotion :: 's
  intensity :: pyfloat
  style :: 's
  camera_angle :: 's
  models :: 'm
  parameters :: 'p

type_synonym typed_request =
  "(string, (string \<times> string) list, (string \<times> json) list) GenerationRequest"

type_synonym raw_request = "(json, json, json) GenerationRequest"

subsection \<open>The engine and the world around it\<close>

record ModelFusionEngine =
  openrouter_key :: string
  active_jobs :: "string \<rightharpoonup> string"

text \<open>\<^verbatim>\<open>ModelFusionEngine.__init__\<close>; the argument is the environment variable, if set.\<close>

definition ModelFusionEngine_init :: "string option \<Rightarrow> ModelFusionEngine" where
  "ModelFusionEngine_init env_key =
     \<lparr>openrouter_key = (case env_key of None \<Rightarrow> ''demo-key'' | Some k \<Rightarrow> k),
      active_jobs = Map.empty\<rparr>"

text \<open>
  What a call does besides returning: it sleeps, it writes a log line.  An error line is
  recorded with the exception it reports.
\<close>

datatype effect = Sleep pyfloat | LogInfo string | LogError pyexn

text \<open>
  The world holds what the program reads from outside: the identifiers \<^verbatim>\<open>uuid.uuid4()\<close>
  will deliver, the readings of \<^verbatim>\<open>time.time()\<close>, the string hash of this process, and two
  limits of the interpreter, \<^verbatim>\<open>sys.get_int_max_str_digits()\<close> (4300 unless it is changed,
  0 for no limit) and the number of nested calls that are left when a handler parses a
  body; and what it changes: how many identifiers and readings are used up, the effects so
  far, and the global \<^verbatim>\<open>fusion_engine\<close>.
\<close>

record world =
  uuid_source :: "nat \<Rightarrow> string"
  uuid_count :: nat
  clock :: "nat \<Rightarrow> pyfloat"
  clock_count :: nat
  str_hash :: "string \<Rightarrow> int"
  int_max_str_digits :: nat
  recursion_headroom :: nat
  trace :: "effect list"
  fusion_engine :: ModelFusionEngine

definition initial_world ::
  "(nat \<Rightarrow> string) \<Rightarrow> (nat \<Rightarrow> pyfloat) \<Rightarrow> (string \<Rightarrow> int) \<Rightarrow> nat \<Rightarrow> nat \<Rightarrow> string option
     \<Rightarrow> world" where
  "initial_world ids readings h max_digits headroom env_key =
     \<lparr>uuid_source = ids, uuid_count = 0, clock = readings, clock_count = 0, str_hash = h,
      int_max_str_digits = max_digits, recursion_headroom = headroom,
      trace = [], fusion_engine = ModelFusionEngine_init env_key\<rparr>"

definition uuid4 :: "world \<Rightarrow> string \<times> world" where
  "uuid4 w = (uuid_source w (uuid_count w), w\<lparr>uuid_count := Suc (uuid_count w)\<rparr>)"

definition time_time :: "world \<Rightarrow> pyfloat \<times> world" where
  "time_time w = (clock w (clock_count w), w\<lparr>clock_count := Suc (clock_count w)\<rparr>)"

definition asyncio_sleep :: "pyfloat \<Rightarrow> world \<Rightarrow> world" where
  "asyncio_sleep d w = w\<lparr>trace := trace w @ [Sleep d]\<rparr>"

definition logger_info :: "string \<Rightarrow> world \<Rightarrow> world" where
  "logger_info line w = w\<lparr>trace := trace w @ [LogInfo line]\<rparr>"

definition logger_error :: "pyexn \<Rightarrow> world \<Rightarrow> world" where
  "logger_error e w = w\<lparr>trace := trace w @ [LogError e]\<rparr>"

section \<open>The pipeline of \<^verbatim>\<open>ModelFusionEngine\<close>\<close>

subsection \<open>\<^verbatim>\<open>_enhance_text_prompt\<close>\<close>

text \<open>
  \<^verbatim>\<open>{req.intensity * 100}\<close> in an f-string: the float product with the integer \<^verbatim>\<open>100\<close>
  (first converted, exactly), then its \<^verbatim>\<open>repr\<close>.
\<close>

definition intensity_percent :: "typed_request \<Rightarrow> string" where
  "intensity_percent req = float_repr (float_mul (intensity req) (decimal 100 0))"

text \<open>The f-string of the branch taken when the prompt names a wheat field.\<close>

definition wheat_field_template :: "typed_request \<Rightarrow> string" where
  "wheat_field_template req =
     ''Cinematic '' @ camera_angle req @ '' shot of a young boy with '' @ emotion req
     @ '' expression, running through a golden wheat field at golden hour. Warm sunlight creates dramatic backlighting, wheat stalks swaying in gentle breeze. Dynamic movement with ''
     @ style req @ '' cinematography, '' @ intensity_percent req
     @ ''% emotional intensity. Professional color grading with warm amber tones.''"

text \<open>The f-string of the other branch.\<close>

definition generic_template :: "typed_request \<Rightarrow> string" where
  "generic_template req =
     ''Professional '' @ style req @ '' '' @ camera_angle req @ '' shot featuring ''
     @ text_prompt req @ ''. Emotional tone: '' @ emotion req @ '' at ''
     @ intensity_percent req
     @ ''% intensity. Cinematic lighting and composition optimized for AI generation.''"

text \<open>
  The function first builds \<^verbatim>\<open>enhancement_prompt\<close>, an f-string over the same fields
  that nothing reads; then it sleeps for half a second and chooses the template.
\<close>

definition enhance_text_prompt :: "typed_request \<Rightarrow> world \<Rightarrow> string \<times> world" where
  "enhance_text_prompt req w =
     (let w1 = asyncio_sleep (decimal 5 1) w;
          enhanced = (if str_in ''wheat field'' (lower (text_prompt req))
                      then wheat_field_template req
                      else generic_template req)
      in (enhanced, w1))"

subsection \<open>\<^verbatim>\<open>_generate_visuals\<close>\<close>

text \<open>\<^verbatim>\<open>hash(req.scene_id) % 10000\<close> is never negative: \<^verbatim>\<open>%\<close> takes the sign of the divisor.\<close>

definition generate_visuals :: "typed_request \<Rightarrow> string \<Rightarrow> world \<Rightarrow> visual_outputs \<times> world" where
  "generate_visuals req enhanced_text w =
     (let w1 = asyncio_sleep (decimal 20 1) w;
          visual_outputs =
            \<lparr>images =
               [\<lparr>image.url = ''https://image.pollinations.ai/prompt/''
                   @ replace_space enhanced_text
                   @ ''?width=1920&height=1080&seed=''
                   @ str_int (str_hash w (scene_id req) mod 10000),
                 image.style = style req,
                 emotion_accuracy = decimal 92 2,
                 image.technical_quality = decimal 89 2\<rparr>],
             videos =
               [\<lparr>video.url = ''https://video.pollinations.ai/prompt/''
                   @ replace_space enhanced_text @ ''?duration=10&fps=30'',
                 camera_work = camera_angle req,
                 motion_quality = decimal 87 2,
                 emotional_sync = decimal 94 2\<rparr>]\<rparr>
      in (visual_outputs, w1))"

subsection \<open>\<^verbatim>\<open>_generate_audio\<close>\<close>

text \<open>\<^verbatim>\<open>i * x\<close> with an integer \<^verbatim>\<open>i\<close> and a float \<^verbatim>\<open>x\<close>: \<^verbatim>\<open>i\<close> is converted first.\<close>

definition int_mul_float :: "int \<Rightarrow> pyfloat \<Rightarrow> pyexn + pyfloat" where
  "int_mul_float i x =
     (case float_of_int i of None \<Rightarrow> Inl OverflowError | Some f \<Rightarrow> Inr (float_mul f x))"

text \<open>A list comprehension whose element expression may raise: the first exception ends it.\<close>

fun comprehension :: "('a \<Rightarrow> pyexn + 'b) \<Rightarrow> 'a list \<Rightarrow> pyexn + 'b list" where
  "comprehension f [] = Inr []"
| "comprehension f (x # xs) =
     (case f x of
        Inl e \<Rightarrow> Inl e
      | Inr y \<Rightarrow> (case comprehension f xs of Inl e \<Rightarrow> Inl e | Inr ys \<Rightarrow> Inr (y # ys)))"

definition generate_audio ::
  "typed_request \<Rightarrow> string \<Rightarrow> world \<Rightarrow> (pyexn + audio_outputs) \<times> world" where
  "generate_audio req enhanced_text w =
     (let w1 = asyncio_sleep (decimal 15 1) w
      in case comprehension (\<lambda>i. int_mul_float i (decimal 1 1)) (map int [0..<50]) of
           Inl e \<Rightarrow> (Inl e, w1)
         | Inr ts \<Rightarrow>
             (Inr \<lparr>audio_outputs.voice =
                     \<lparr>voice.url = ''https://audio.pollinations.ai/speech/''
                        @ take 100 enhanced_text @ ''?voice=child&emotion='' @ emotion req,
                      emotion_match = decimal 91 2,
                      naturalness = decimal 88 2,
                      lipsync_data =
                        \<lparr>phonemes = concat (replicate 10 [''A'', ''E'', ''I'', ''O'', ''U'']),
                         timestamps = ts,
                         mouth_shapes =
                           concat (replicate 10
                             [''open'', ''smile'', ''narrow'', ''round'', ''pucker''])\<rparr>\<rparr>,
                   music =
                     \<lparr>music.url = ''https://audio.pollinations.ai/music/cinematic-''
                        @ emotion req @ ''?tempo=120&key=C'',
                      mood_alignment = decimal 93 2,
                      emotional_progression = True,
                      adaptive_sync = True\<rparr>\<rparr>,
              w1))"

subsection \<open>\<^verbatim>\<open>_fuse_modalities\<close>\<close>

text \<open>\<^verbatim>\<open>visual["videos"][0]\<close> raises \<^verbatim>\<open>IndexError\<close> on an empty list.\<close>

definition fuse_modalities ::
  "visual_outputs \<Rightarrow> audio_outputs \<Rightarrow> typed_request \<Rightarrow> world \<Rightarrow> (pyexn + fused_output) \<times> world" where
  "fuse_modalities visual audio_out req w =
     (let w1 = asyncio_sleep (decimal 10 1) w
      in case videos visual of
           [] \<Rightarrow> (Inl IndexError, w1)
         | first_video # others \<Rightarrow>
             (Inr \<lparr>primary_content =
                     \<lparr>video = video.url first_video,
                      audio = music.url (music audio_out),
                      primary_content.voice = voice.url (audio_outputs.voice audio_out)\<rparr>,
                   synchronized_timeline =
                     \<lparr>total_duration = decimal 100 1,
                      emotion_peaks = [decimal 25 1, decimal 50 1, decimal 85 1],
                      camera_transitions =
                        [PInt 0, PFloat (decimal 30 1), PFloat (decimal 60 1),
                         PFloat (decimal 90 1)],
                      audio_sync_points =
                        [PInt 0, PFloat (decimal 20 1), PFloat (decimal 40 1),
                         PFloat (decimal 60 1), PFloat (decimal 80 1)]\<rparr>,
                   fusion_metadata =
                     \<lparr>visual_audio_sync = decimal 96 2,
                      emotional_coherence = decimal 94 2,
                      fusion_metadata.technical_quality = decimal 91 2,
                      creative_score = decimal 89 2\<rparr>,
                   render_ready =
                     \<lparr>flux_pipeline = True,
                      lipsync_enabled = True,
                      seedance_processing = True,
                      webgl_optimized = True\<rparr>\<rparr>,
              w1))"

subsection \<open>\<^verbatim>\<open>process_multimodal_scene\<close>\<close>

text \<open>An exception of a stage leaves the function at once; nothing catches it here.\<close>

definition process_multimodal_scene ::
  "typed_request \<Rightarrow> world \<Rightarrow> (pyexn + GenerationResult) \<times> world" where
  "process_multimodal_scene req w =
     (let (start_time, w1) = time_time w;
          (request_id, w2) = uuid4 w1;
          w3 = logger_info (''Starting multimodal processing for scene '' @ scene_id req) w2;
          (enhanced_text, w4) = enhance_text_prompt req w3;
          (visual_outputs, w5) = generate_visuals req enhanced_text w4;
          (audio_result, w6) = generate_audio req enhanced_text w5
      in case audio_result of
           Inl e \<Rightarrow> (Inl e, w6)
         | Inr audio_outputs \<Rightarrow>
             (let (fused_result, w7) = fuse_modalities visual_outputs audio_outputs req w6
              in case fused_result of
                   Inl e \<Rightarrow> (Inl e, w7)
                 | Inr fused_output \<Rightarrow>
                     (let (end_time, w8) = time_time w7;
                          processing_time = float_sub end_time start_time
                      in (Inr \<lparr>request_id = request_id,
                               GenerationResult.scene_id = scene_id req,
                               status = ''completed'',
                               outputs = fused_output,
                               metadata =
                                 \<lparr>enhanced_prompt = enhanced_text,
                                  models_used = models req,
                                  emotion_context =
                                    \<lparr>emotion_context.emotion = emotion req,
                                     emotion_context.intensity = intensity req\<rparr>,
                                  processing_stages =
                                    [''text_enhancement'', ''visual_generation'',
                                     ''audio_generation'', ''fusion'']\<rparr>,
                               processing_time = processing_time\<rparr>,
                          w8))))"

section \<open>The HTTP handlers\<close>

record response =
  body :: json
  status_code :: nat

subsection \<open>Operations on the JSON body\<close>

text \<open>\<^verbatim>\<open>bind_exn r f\<close> goes on with \<open>f\<close> unless \<open>r\<close> is an exception.\<close>

definition bind_exn :: "pyexn + 'a \<Rightarrow> ('a \<Rightarrow> pyexn + 'b) \<Rightarrow> pyexn + 'b" where
  "bind_exn r f = (case r of Inl e \<Rightarrow> Inl e | Inr x \<Rightarrow> f x)"

text \<open>
  \<^verbatim>\<open>field in data\<close>: a key of a dictionary, an element of a list, a substring of a
  string; \<^verbatim>\<open>TypeError\<close> on \<^verbatim>\<open>None\<close>, a boolean or a number.
\<close>

fun py_in :: "string \<Rightarrow> json \<Rightarrow> pyexn + bool" where
  "py_in field (JDict items) = Inr (field \<in> set (map fst items))"
| "py_in field (JList xs) = Inr (JStr field \<in> set xs)"
| "py_in field (JStr s) = Inr (str_in field s)"
| "py_in field JNull = Inl TypeError"
| "py_in field (JBool b) = Inl TypeError"
| "py_in field (JInt n) = Inl TypeError"
| "py_in field (JFloat x) = Inl TypeError"

text \<open>\<^verbatim>\<open>data[key]\<close> with a string key: only a dictionary can be indexed so.\<close>

fun subscript :: "json \<Rightarrow> string \<Rightarrow> pyexn + json" where
  "subscript (JDict items) key =
     (case map_of (rev items) key of None \<Rightarrow> Inl KeyError | Some v \<Rightarrow> Inr v)"
| "subscript (JList xs) key = Inl TypeError"
| "subscript (JStr s) key = Inl TypeError"
| "subscript JNull key = Inl TypeError"
| "subscript (JBool b) key = Inl TypeError"
| "subscript (JInt n) key = Inl TypeError"
| "subscript (JFloat x) key = Inl TypeError"

text \<open>\<^verbatim>\<open>data.get(key, default)\<close>: only a dictionary has the method.\<close>

fun dict_get :: "json \<Rightarrow> string \<Rightarrow> json \<Rightarrow> pyexn + json" where
  "dict_get (JDict items) key dflt =
     Inr (case map_of (rev items) key of None \<Rightarrow> dflt | Some v \<Rightarrow> v)"
| "dict_get (JList xs) key dflt = Inl AttributeError"
| "dict_get (JStr s) key dflt = Inl AttributeError"
| "dict_get JNull key dflt = Inl AttributeError"
| "dict_get (JBool b) key dflt = Inl AttributeError"
| "dict_get (JInt n) key dflt = Inl AttributeError"
| "dict_get (JFloat x) key dflt = Inl AttributeError"

text \<open>\<^verbatim>\<open>float(v)\<close>.\<close>

fun py_float :: "json \<Rightarrow> pyexn + pyfloat" where
  "py_float (JFloat x) = Inr x"
| "py_float (JInt n) = (case float_of_int n of None \<Rightarrow> Inl OverflowError | Some x \<Rightarrow> Inr x)"
| "py_float (JBool b) = Inr (Finite False (if b then 1 else 0) 0)"
| "py_float (JStr s) = (case float_of_str s of None \<Rightarrow> Inl ValueError | Some x \<Rightarrow> Inr x)"
| "py_float JNull = Inl TypeError"
| "py_float (JList xs) = Inl TypeError"
| "py_float (JDict items) = Inl TypeError"

subsection \<open>\<^verbatim>\<open>request.get_json()\<close>\<close>

text \<open>
  The request has the content type of JSON and its body is a JSON text.  \<^verbatim>\<open>json.loads\<close>
  reads the text from left to right and stops at the first error:

    \<^item> every array and every object is read by a nested call, and a \<^verbatim>\<open>RecursionError\<close> is
      raised when no nested call is left;

    \<^item> an integer literal is converted by \<^verbatim>\<open>int\<close>, which raises \<^verbatim>\<open>ValueError\<close> for a literal
      of more than 640 digits that has more digits than the limit of the interpreter, when
      there is a limit; \<^verbatim>\<open>get_json\<close> answers a \<^verbatim>\<open>ValueError\<close> of the parser by raising
      \<^verbatim>\<open>BadRequest\<close>.

  A literal with a fraction or an exponent is converted by \<^verbatim>\<open>float\<close>, which has no limit.
\<close>

definition first_error :: "pyexn option list \<Rightarrow> pyexn option" where
  "first_error results =
     (case filter (\<lambda>r. r \<noteq> None) results of [] \<Rightarrow> None | r # others \<Rightarrow> r)"

fun scan_json :: "nat \<Rightarrow> nat \<Rightarrow> json \<Rightarrow> pyexn option" where
  "scan_json max_digits headroom (JInt n) =
     (if 640 < digits10 \<bar>n\<bar> \<and> 0 < max_digits \<and> max_digits < digits10 \<bar>n\<bar>
      then Some BadRequest else None)"
| "scan_json max_digits 0 (JList xs) = Some RecursionError"
| "scan_json max_digits (Suc headroom) (JList xs) =
     first_error (map (scan_json max_digits headroom) xs)"
| "scan_json max_digits 0 (JDict items) = Some RecursionError"
| "scan_json max_digits (Suc headroom) (JDict items) =
     first_error (map (\<lambda>(key, v). scan_json max_digits headroom v) items)"
| "scan_json max_digits headroom JNull = None"
| "scan_json max_digits headroom (JBool b) = None"
| "scan_json max_digits headroom (JFloat x) = None"
| "scan_json max_digits headroom (JStr s) = None"

definition get_json :: "json \<Rightarrow> world \<Rightarrow> pyexn + json" where
  "get_json request_body w =
     (case scan_json (int_max_str_digits w) (recursion_headroom w) request_body of
        Some e \<Rightarrow> Inl e
      | None \<Rightarrow> Inr request_body)"

subsection \<open>\<^verbatim>\<open>generate_multimodal\<close>\<close>

definition required_fields :: "string list" where
  "required_fields =
     [''scene_id'', ''text_prompt'', ''emotion'', ''intensity'', ''style'', ''camera_angle'',
      ''models'']"

text \<open>The validation loop: the first field that is not in the body, if there is one.\<close>

fun first_missing :: "string list \<Rightarrow> json \<Rightarrow> pyexn + string option" where
  "first_missing [] data = Inr None"
| "first_missing (field # rest) data =
     (case py_in field data of
        Inl e \<Rightarrow> Inl e
      | Inr present \<Rightarrow> if present then first_missing rest data else Inr (Some field))"

text \<open>
  The call \<^verbatim>\<open>GenerationRequest(...)\<close> of the handler: the arguments are evaluated in the
  order written; only \<^verbatim>\<open>intensity\<close> is converted.
\<close>

definition make_request :: "json \<Rightarrow> pyexn + raw_request" where
  "make_request data =
     bind_exn (subscript data ''scene_id'') (\<lambda>v1.
     bind_exn (subscript data ''text_prompt'') (\<lambda>v2.
     bind_exn (subscript data ''emotion'') (\<lambda>v3.
     bind_exn (bind_exn (subscript data ''intensity'') py_float) (\<lambda>v4.
     bind_exn (subscript data ''style'') (\<lambda>v5.
     bind_exn (subscript data ''camera_angle'') (\<lambda>v6.
     bind_exn (subscript data ''models'') (\<lambda>v7.
     bind_exn (dict_get data ''parameters'' (JDict [])) (\<lambda>v8.
       Inr \<lparr>scene_id = v1, text_prompt = v2, emotion = v3, intensity = v4, style = v5,
            camera_angle = v6, models = v7, parameters = v8\<rparr>))))))))"

text \<open>The \<^verbatim>\<open>except Exception\<close> clause.\<close>

definition internal_server_error :: "pyexn \<Rightarrow> world \<Rightarrow> response \<times> world" where
  "internal_server_error e w =
     (\<lparr>body = JDict [(''error'', JStr ''Internal server error'')], status_code = 500\<rparr>,
      logger_error e w)"

definition register_job :: "string \<Rightarrow> world \<Rightarrow> world" where
  "register_job job_id w =
     w\<lparr>fusion_engine :=
         (fusion_engine w)\<lparr>active_jobs := (active_jobs (fusion_engine w))(job_id \<mapsto> ''processing'')\<rparr>\<rparr>"

text \<open>
  The handler, for a request with the body \<open>request_body\<close>.  All of it is inside the
  \<^verbatim>\<open>try\<close>, also the call of \<^verbatim>\<open>request.get_json()\<close>.
\<close>

definition generate_multimodal :: "json \<Rightarrow> world \<Rightarrow> response \<times> world" where
  "generate_multimodal request_body w =
     (case get_json request_body w of
        Inl e \<Rightarrow> internal_server_error e w
      | Inr data \<Rightarrow>
          (case first_missing required_fields data of
             Inl e \<Rightarrow> internal_server_error e w
           | Inr (Some field) \<Rightarrow>
               (\<lparr>body = JDict [(''error'', JStr (''Missing required field: '' @ field))],
                 status_code = 400\<rparr>, w)
           | Inr None \<Rightarrow>
               (case make_request data of
                  Inl e \<Rightarrow> internal_server_error e w
                | Inr gen_request \<Rightarrow>
                    (let (job_id, w1) = uuid4 w;
                         w2 = register_job job_id w1;
                         result = JDict [(''job_id'', JStr job_id),
                                         (''status'', JStr ''processing''),
                                         (''estimated_time'', JInt 30),
                                         (''progress_url'',
                                            JStr (''/api/v1/jobs/'' @ job_id @ ''/status''))]
                     in (\<lparr>body = result, status_code = 202\<rparr>, w2)))))"

subsection \<open>\<^verbatim>\<open>get_job_status\<close>\<close>

definition mock_result :: "string \<Rightarrow> json" where
  "mock_result job_id =
     JDict [(''job_id'', JStr job_id),
            (''status'', JStr ''completed''),
            (''progress'', JInt 100),
            (''result'',
               JDict [(''scene_id'', JStr ''scene-001''),
                      (''outputs'',
                         JDict [(''video'', JStr ''https://example.com/generated-video.mp4''),
                                (''audio'', JStr ''https://example.com/generated-audio.mp3''),
                                (''metadata'',
                                   JDict [(''emotion_accuracy'', JFloat (decimal 94 2)),
                                          (''visual_quality'', JFloat (decimal 91 2)),
                                          (''audio_sync'', JFloat (decimal 96 2))])]),
                      (''processing_time'', JFloat (decimal 253 1))])]"

definition get_job_status :: "string \<Rightarrow> world \<Rightarrow> response" where
  "get_job_status job_id w =
     (if job_id \<notin> dom (active_jobs (fusion_engine w))
      then \<lparr>body = JDict [(''error'', JStr ''Job not found'')], status_code = 404\<rparr>
      else \<lparr>body = mock_result job_id, status_code = 200\<rparr>)"

subsection \<open>Runs of the process\<close>

text \<open>
  What can happen to the world: a request to one of the two handlers above, a call of the
  pipeline, or a request to one of the handlers \<^verbatim>\<open>health_check\<close>, \<^verbatim>\<open>enhance_prompt\<close> and
  \<^verbatim>\<open>list_available_models\<close>, which do not mention \<^verbatim>\<open>fusion_engine\<close>, \<^verbatim>\<open>uuid\<close> or \<^verbatim>\<open>time\<close> and can
  only add log lines.
\<close>

datatype event =
    Generate json
  | Status string
  | Process typed_request
  | Elsewhere "effect list"

fun after :: "event \<Rightarrow> world \<Rightarrow> world" where
  "after (Generate data) w = snd (generate_multimodal data w)"
| "after (Status job_id) w = w"
| "after (Process req) w = snd (process_multimodal_scene req w)"
| "after (Elsewhere effects) w = w\<lparr>trace := trace w @ effects\<rparr>"

definition run :: "event list \<Rightarrow> world \<Rightarrow> world" where
  "run events w = foldl (\<lambda>w' ev. after ev w') w events"

section \<open>Example inputs\<close>

text \<open>
  A request of the pipeline, the same with two other prompts, and a first world: an
  interpreter with the limit of 4300 digits and 900 nested calls left.
\<close>

definition example_request :: typed_request where
  "example_request =
     \<lparr>scene_id = ''scene-001'', text_prompt = ''A boy runs through a Wheat Field'',
      emotion = ''joy'', intensity = decimal 8 1, style = ''cinematic'',
      camera_angle = ''wide'', models = [(''text'', ''claude-3-haiku'')], parameters = []\<rparr>"

definition wheat_request :: typed_request where
  "wheat_request = example_request\<lparr>text_prompt := ''wheat field''\<rparr>"

definition plain_request :: typed_request where
  "plain_request = example_request\<lparr>text_prompt := ''a city at night''\<rparr>"

definition example_world :: world where
  "example_world =
     initial_world (\<lambda>n. replicate (Suc n) CHR ''u'') (\<lambda>n. decimal (5 * int n) 0)
       (\<lambda>s. - int (length s)) 4300 900 None"

text \<open>
  A JSON body with the seven required fields, \<^verbatim>\<open>intensity\<close> being \<open>v\<close>; one without
  \<^verbatim>\<open>emotion\<close>; and one without \<^verbatim>\<open>emotion\<close> whose \<^verbatim>\<open>intensity\<close> is the integer literal of a
  one and 5000 zeros.
\<close>

definition body_with_intensity :: "json \<Rightarrow> json" where
  "body_with_intensity v =
     JDict [(''scene_id'', JStr ''scene-001''),
            (''text_prompt'', JStr ''A boy runs through a wheat field''),
            (''emotion'', JStr ''joy''),
            (''intensity'', v),
            (''style'', JStr ''cinematic''),
            (''camera_angle'', JStr ''wide''),
            (''models'', JDict [(''text'', JStr ''claude-3-haiku'')])]"



section \<open>Properties\<close>

subsection \<open>Substrings\<close>

lemma starts_with_iff: "starts_with n s \<longleftrightarrow> (\<exists>post. s = n @ post)"
  by (induction n s rule: starts_with.induct) auto

lemma str_in_iff: "str_in n s \<longleftrightarrow> (\<exists>pre post. s = pre @ n @ post)"
proof (induction s)
  case Nil
  then show ?case by auto
next
  case (Cons d ds)
  show ?case
  proof
    assume "str_in n (d # ds)"
    then consider "starts_with n (d # ds)" | "str_in n ds" by auto
    then show "\<exists>pre post. d # ds = pre @ n @ post"
    proof cases
      case 1
      then obtain post where "d # ds = n @ post" using starts_with_iff by blast
      then have "d # ds = [] @ n @ post" by simp
      then show ?thesis by blast
    next
      case 2
      then obtain pre post where "ds = pre @ n @ post" using Cons.IH by blast
      then have "d # ds = (d # pre) @ n @ post" by simp
      then show ?thesis by blast
    qed
  next
    assume "\<exists>pre post. d # ds = pre @ n @ post"
    then obtain pre post where eq: "d # ds = pre @ n @ post" by blast
    show "str_in n (d # ds)"
    proof (cases pre)
      case Nil
      with eq have "starts_with n (d # ds)" using starts_with_iff by auto
      then show ?thesis by simp
    next
      case (Cons p ps)
      with eq have "ds = ps @ n @ post" by simp
      then have "str_in n ds" using Cons.IH by blast
      then show ?thesis by simp
    qed
  qed
qed

subsection \<open>The choice of the template\<close>

lemma templates_differ: "wheat_field_template req \<noteq> generic_template req"
  by (simp add: wheat_field_template_def generic_template_def)

lemma enhance_value:
  "fst (enhance_text_prompt req w) =
     (if str_in ''wheat field'' (lower (text_prompt req))
      then wheat_field_template req else generic_template req)"
  by (simp add: enhance_text_prompt_def Let_def)

lemma example_prompt_has_wheat_field:
  "str_in ''wheat field'' (lower (text_prompt example_request))"
  by code_simp

lemma plain_prompt_has_no_wheat_field:
  "\<not> str_in ''wheat field'' (lower (text_prompt plain_request))"
  by code_simp

text \<open>
  Claim C2.  For every request, \<^verbatim>\<open>_enhance_text_prompt\<close> returns the elaborate wheat-field
  template if and only if the lower-cased \<^verbatim>\<open>text_prompt\<close> contains the substring
  \<^verbatim>\<open>wheat field\<close>, and the generic template if and only if it does not.  The two templates
  are never the same string, so the result tells the branch.
\<close>

theorem enhance_text_prompt_branch:
  "(fst (enhance_text_prompt req w) = wheat_field_template req
      \<longleftrightarrow> (\<exists>pre post. lower (text_prompt req) = pre @ ''wheat field'' @ post))
   \<and> (fst (enhance_text_prompt req w) = generic_template req
      \<longleftrightarrow> \<not> (\<exists>pre post. lower (text_prompt req) = pre @ ''wheat field'' @ post))"
  using templates_differ [of req]
  by (auto simp: enhance_value str_in_iff [symmetric] simp del: append.simps)

theorem enhance_text_prompt_branch_witness:
  "fst (enhance_text_prompt example_request example_world) = wheat_field_template example_request
   \<and> fst (enhance_text_prompt plain_request example_world) = generic_template plain_request"
  using enhance_text_prompt_branch [of example_request example_world]
    enhance_text_prompt_branch [of plain_request example_world]
    example_prompt_has_wheat_field plain_prompt_has_no_wheat_field
  by (simp only: str_in_iff [symmetric] simp_thms)

subsection \<open>Parsing the body\<close>

lemma get_json_returns_body: "get_json request_body w = Inr data \<Longrightarrow> data = request_body"
  by (simp add: get_json_def split: option.splits)

lemma scan_json_object:
  "0 < headroom \<Longrightarrow>
     scan_json max_digits headroom (JDict items) =
       first_error (map (\<lambda>(key, v). scan_json max_digits (headroom - 1) v) items)"
  by (cases headroom) simp_all




lemma example_world_limits:
  "int_max_str_digits example_world = 4300" "recursion_headroom example_world = 900"
  by (simp_all add: example_world_def initial_world_def)

lemma get_json_body_with_intensity:
  "scan_json 4300 899 v = None \<Longrightarrow>
     get_json (body_with_intensity v) example_world = Inr (body_with_intensity v)"
  by (simp add: get_json_def example_world_limits body_with_intensity_def scan_json_object
      first_error_def)




subsection \<open>A request body without a required field\<close>

lemma first_missing_dict:
  "first_missing fs (JDict items) = Inr (find (\<lambda>f. f \<notin> set (map fst items)) fs)"
  by (induction fs) auto




subsection \<open>A request body with all the required fields\<close>

lemma subscript_present:
  "key \<in> set (map fst items) \<Longrightarrow>
     \<exists>v. map_of (rev items) key = Some v \<and> subscript (JDict items) key = Inr v"
  by (cases "map_of (rev items) key") (auto simp: map_of_eq_None_iff)

lemma float_of_str_high: "float_of_str ''high'' = None"
  by code_simp

text \<open>
  Claim C3, as the code has it.  A body that is a JSON object with all seven required
  fields is never answered with 400.  When \<^verbatim>\<open>request.get_json()\<close> raises, or when it
  returns and \<^verbatim>\<open>float\<close> of the value of \<^verbatim>\<open>intensity\<close> raises (a string that is not a
  number, \<^verbatim>\<open>null\<close>, a list, an object, an integer beyond the range of a float), the
  \<^verbatim>\<open>except\<close> clause logs the exception and answers 500 with
  \<^verbatim>\<open>{"error": "Internal server error"}\<close>, and no job is registered; otherwise the answer
  is 202 and the job is registered.  The value of \<^verbatim>\<open>intensity\<close> is that of its last member
  in the body; the values of the other fields are not inspected.
\<close>

theorem generate_multimodal_all_fields_present:
  assumes "\<forall>f \<in> set required_fields. f \<in> set (map fst items)"
  shows "\<exists>v. map_of (rev items) ''intensity'' = Some v
     \<and> generate_multimodal (JDict items) w =
         (case get_json (JDict items) w of
            Inl e \<Rightarrow>
              (\<lparr>body = JDict [(''error'', JStr ''Internal server error'')], status_code = 500\<rparr>,
               w\<lparr>trace := trace w @ [LogError e]\<rparr>)
          | Inr data \<Rightarrow>
              (case py_float v of
                 Inl e \<Rightarrow>
                   (\<lparr>body = JDict [(''error'', JStr ''Internal server error'')],
                     status_code = 500\<rparr>,
                    w\<lparr>trace := trace w @ [LogError e]\<rparr>)
               | Inr x \<Rightarrow>
                   (\<lparr>body = JDict [(''job_id'', JStr (uuid_source w (uuid_count w))),
                                   (''status'', JStr ''processing''),
                                   (''estimated_time'', JInt 30),
                                   (''progress_url'',
                                      JStr (''/api/v1/jobs/'' @ uuid_source w (uuid_count w)
                                            @ ''/status''))],
                     status_code = 202\<rparr>,
                    w\<lparr>uuid_count := Suc (uuid_count w),
                      fusion_engine := (fusion_engine w)
                        \<lparr>active_jobs :=
                           (active_jobs (fusion_engine w))
                             (uuid_source w (uuid_count w) \<mapsto> ''processing'')\<rparr>\<rparr>)))"
proof -
  have missing: "first_missing required_fields (JDict items) = Inr None"
    using assms by (simp add: first_missing_dict find_None_iff)
  have present: "\<exists>v. map_of (rev items) key = Some v \<and> subscript (JDict items) key = Inr v"
    if "key \<in> set required_fields" for key
    using assms that subscript_present by blast
  obtain v1 where v1: "subscript (JDict items) ''scene_id'' = Inr v1"
    using present [of "''scene_id''"] by (auto simp: required_fields_def)
  obtain v2 where v2: "subscript (JDict items) ''text_prompt'' = Inr v2"
    using present [of "''text_prompt''"] by (auto simp: required_fields_def)
  obtain v3 where v3: "subscript (JDict items) ''emotion'' = Inr v3"
    using present [of "''emotion''"] by (auto simp: required_fields_def)
  obtain v where v: "map_of (rev items) ''intensity'' = Some v"
    and v4: "subscript (JDict items) ''intensity'' = Inr v"
    using present [of "''intensity''"] by (auto simp: required_fields_def)
  obtain v5 where v5: "subscript (JDict items) ''style'' = Inr v5"
    using present [of "''style''"] by (auto simp: required_fields_def)
  obtain v6 where v6: "subscript (JDict items) ''camera_angle'' = Inr v6"
    using present [of "''camera_angle''"] by (auto simp: required_fields_def)
  obtain v7 where v7: "subscript (JDict items) ''models'' = Inr v7"
    using present [of "''models''"] by (auto simp: required_fields_def)
  have "generate_multimodal (JDict items) w =
         (case get_json (JDict items) w of
            Inl e \<Rightarrow>
              (\<lparr>body = JDict [(''error'', JStr ''Internal server error'')], status_code = 500\<rparr>,
               w\<lparr>trace := trace w @ [LogError e]\<rparr>)
          | Inr data \<Rightarrow>
              (case py_float v of
                 Inl e \<Rightarrow>
                   (\<lparr>body = JDict [(''error'', JStr ''Internal server error'')],
                     status_code = 500\<rparr>,
                    w\<lparr>trace := trace w @ [LogError e]\<rparr>)
               | Inr x \<Rightarrow>
                   (\<lparr>body = JDict [(''job_id'', JStr (uuid_source w (uuid_count w))),
                                   (''status'', JStr ''processing''),
                                   (''estimated_time'', JInt 30),
                                   (''progress_url'',
                                      JStr (''/api/v1/jobs/'' @ uuid_source w (uuid_count w)
                                            @ ''/status''))],
                     status_code = 202\<rparr>,
                    w\<lparr>uuid_count := Suc (uuid_count w),
                      fusion_engine := (fusion_engine w)
                        \<lparr>active_jobs :=
                           (active_jobs (fusion_engine w))
                             (uuid_source w (uuid_count w) \<mapsto> ''processing'')\<rparr>\<rparr>)))"
  proof (cases "get_json (JDict items) w")
    case (Inl e)
    then show ?thesis
      by (simp add: generate_multimodal_def internal_server_error_def logger_error_def)
  next
    case (Inr data)
    then have parsed: "get_json (JDict items) w = Inr (JDict items)"
      using get_json_returns_body by blast
    show ?thesis
      unfolding generate_multimodal_def parsed sum.case missing make_request_def
        v1 v2 v3 v4 v5 v6 v7
      by (simp add: bind_exn_def internal_server_error_def logger_error_def uuid4_def
          register_job_def split: sum.splits)
  qed
  with v show ?thesis by blast
qed

theorem generate_multimodal_all_fields_present_witness:
  "generate_multimodal (body_with_intensity JNull) example_world =
     (\<lparr>body = JDict [(''error'', JStr ''Internal server error'')], status_code = 500\<rparr>,
      example_world\<lparr>trace := trace example_world @ [LogError TypeError]\<rparr>)"
  using generate_multimodal_all_fields_present
    [of "[(''scene_id'', JStr ''scene-001''),
          (''text_prompt'', JStr ''A boy runs through a wheat field''),
          (''emotion'', JStr ''joy''),
          (''intensity'', JNull),
          (''style'', JStr ''cinematic''),
          (''camera_angle'', JStr ''wide''),
          (''models'', JDict [(''text'', JStr ''claude-3-haiku'')])]" example_world]
    get_json_body_with_intensity [of JNull]
  by (simp add: body_with_intensity_def required_fields_def)

text \<open>
  The body with all seven fields whose \<^verbatim>\<open>intensity\<close> is the string \<^verbatim>\<open>high\<close>:
  \<^verbatim>\<open>float("high")\<close> raises \<^verbatim>\<open>ValueError\<close>, and the answer is 500, not 400.
\<close>

theorem generate_multimodal_malformed_intensity_example:
  "fst (generate_multimodal (body_with_intensity (JStr ''high'')) example_world) =
     \<lparr>body = JDict [(''error'', JStr ''Internal server error'')], status_code = 500\<rparr>"
proof -
  have "get_json (body_with_intensity (JStr ''high'')) example_world
      = Inr (body_with_intensity (JStr ''high''))"
    by (rule get_json_body_with_intensity) simp
  then show ?thesis
    unfolding generate_multimodal_def
    by (simp add: body_with_intensity_def required_fields_def make_request_def bind_exn_def
        internal_server_error_def float_of_str_high)
qed

subsection \<open>Fusion\<close>

text \<open>
  Claim C9.  For any two inputs of \<^verbatim>\<open>_fuse_modalities\<close> whose \<^verbatim>\<open>videos\<close> lists are not
  empty, both calls return, and their \<^verbatim>\<open>synchronized_timeline\<close>, \<^verbatim>\<open>fusion_metadata\<close> and
  \<^verbatim>\<open>render_ready\<close> are the same constants: total duration \<^verbatim>\<open>10.0\<close>, emotion peaks
  \<^verbatim>\<open>[2.5, 5.0, 8.5]\<close>, camera transitions \<^verbatim>\<open>[0, 3.0, 6.0, 9.0]\<close>, audio sync points
  \<^verbatim>\<open>[0, 2.0, 4.0, 6.0, 8.0]\<close>, the four scores, and four flags that are true.  Only
  \<^verbatim>\<open>primary_content\<close> depends on the input: the URL of the first video, the URL of the
  music and the URL of the voice.
\<close>

theorem fuse_modalities_constant:
  assumes "videos visual \<noteq> []" and "videos visual' \<noteq> []"
  shows "\<exists>out out'.
     fst (fuse_modalities visual audio_out req w) = Inr out
     \<and> fst (fuse_modalities visual' audio_out' req' w') = Inr out'
     \<and> synchronized_timeline out = synchronized_timeline out'
     \<and> synchronized_timeline out =
         \<lparr>total_duration = decimal 100 1,
          emotion_peaks = [decimal 25 1, decimal 50 1, decimal 85 1],
          camera_transitions =
            [PInt 0, PFloat (decimal 30 1), PFloat (decimal 60 1), PFloat (decimal 90 1)],
          audio_sync_points =
            [PInt 0, PFloat (decimal 20 1), PFloat (decimal 40 1), PFloat (decimal 60 1),
             PFloat (decimal 80 1)]\<rparr>
     \<and> fusion_metadata out = fusion_metadata out'
     \<and> fusion_metadata out =
         \<lparr>visual_audio_sync = decimal 96 2,
          emotional_coherence = decimal 94 2,
          fusion_metadata.technical_quality = decimal 91 2,
          creative_score = decimal 89 2\<rparr>
     \<and> render_ready out = render_ready out'
     \<and> render_ready out =
         \<lparr>flux_pipeline = True, lipsync_enabled = True, seedance_processing = True,
          webgl_optimized = True\<rparr>
     \<and> primary_content out =
         \<lparr>video = video.url (hd (videos visual)),
          audio = music.url (music audio_out),
          primary_content.voice = voice.url (audio_outputs.voice audio_out)\<rparr>
     \<and> primary_content out' =
         \<lparr>video = video.url (hd (videos visual')),
          audio = music.url (music audio_out'),
          primary_content.voice = voice.url (audio_outputs.voice audio_out')\<rparr>"
proof -
  from assms obtain v vs v' vs' where "videos visual = v # vs" and "videos visual' = v' # vs'"
    by (cases "videos visual"; cases "videos visual'") auto
  then show ?thesis
    by (simp add: fuse_modalities_def Let_def)
qed

lemma ten_seconds: "decimal 100 1 = Finite False 5 1"
  by code_simp

theorem fuse_modalities_constant_witness:
  "\<forall>a a'. \<exists>out out'.
     fst (fuse_modalities (fst (generate_visuals example_request ''one'' example_world)) a
            example_request example_world) = Inr out
     \<and> fst (fuse_modalities (fst (generate_visuals plain_request ''two'' example_world)) a'
            plain_request example_world) = Inr out'
     \<and> synchronized_timeline out = synchronized_timeline out'
     \<and> total_duration (synchronized_timeline out) = Finite False 5 1
     \<and> fusion_metadata out = fusion_metadata out'
     \<and> render_ready out = render_ready out'
     \<and> video (primary_content out) = ''https://video.pollinations.ai/prompt/one?duration=10&fps=30''
     \<and> video (primary_content out') = ''https://video.pollinations.ai/prompt/two?duration=10&fps=30''"
proof (intro allI)
  fix a a'
  have v: "videos (fst (generate_visuals example_request ''one'' example_world)) \<noteq> []"
    and v': "videos (fst (generate_visuals plain_request ''two'' example_world)) \<noteq> []"
    by (simp_all add: generate_visuals_def Let_def)
  have u: "video.url (hd (videos (fst (generate_visuals example_request ''one'' example_world))))
      = ''https://video.pollinations.ai/prompt/one?duration=10&fps=30''"
    and u': "video.url (hd (videos (fst (generate_visuals plain_request ''two'' example_world))))
      = ''https://video.pollinations.ai/prompt/two?duration=10&fps=30''"
    by (simp_all add: generate_visuals_def Let_def replace_space_def)
  from fuse_modalities_constant
    [OF v v', of a example_request example_world a' plain_request example_world]
  obtain out out'
    where o: "fst (fuse_modalities (fst (generate_visuals example_request ''one'' example_world))
            a example_request example_world) = Inr out"
      and o': "fst (fuse_modalities (fst (generate_visuals plain_request ''two'' example_world))
            a' plain_request example_world) = Inr out'"
      and tl: "synchronized_timeline out = synchronized_timeline out'"
      and tlv: "synchronized_timeline out =
         \<lparr>total_duration = decimal 100 1,
          emotion_peaks = [decimal 25 1, decimal 50 1, decimal 85 1],
          camera_transitions =
            [PInt 0, PFloat (decimal 30 1), PFloat (decimal 60 1), PFloat (decimal 90 1)],
          audio_sync_points =
            [PInt 0, PFloat (decimal 20 1), PFloat (decimal 40 1), PFloat (decimal 60 1),
             PFloat (decimal 80 1)]\<rparr>"
      and fm: "fusion_metadata out = fusion_metadata out'"
      and rr: "render_ready out = render_ready out'"
      and pc: "primary_content out =
         \<lparr>video = video.url
            (hd (videos (fst (generate_visuals example_request ''one'' example_world)))),
          audio = music.url (music a),
          primary_content.voice = voice.url (audio_outputs.voice a)\<rparr>"
      and pc': "primary_content out' =
         \<lparr>video = video.url
            (hd (videos (fst (generate_visuals plain_request ''two'' example_world)))),
          audio = music.url (music a'),
          primary_content.voice = voice.url (audio_outputs.voice a')\<rparr>"
    by blast
  have "total_duration (synchronized_timeline out) = Finite False 5 1"
    unfolding tlv using ten_seconds by simp
  moreover have "video (primary_content out) =
      ''https://video.pollinations.ai/prompt/one?duration=10&fps=30''"
    unfolding pc u by simp
  moreover have "video (primary_content out') =
      ''https://video.pollinations.ai/prompt/two?duration=10&fps=30''"
    unfolding pc' u' by simp
  ultimately show "\<exists>out out'.
     fst (fuse_modalities (fst (generate_visuals example_request ''one'' example_world)) a
            example_request example_world) = Inr out
     \<and> fst (fuse_modalities (fst (generate_visuals plain_request ''two'' example_world)) a'
            plain_request example_world) = Inr out'
     \<and> synchronized_timeline out = synchronized_timeline out'
     \<and> total_duration (synchronized_timeline out) = Finite False 5 1
     \<and> fusion_metadata out = fusion_metadata out'
     \<and> render_ready out = render_ready out'
     \<and> video (primary_content out) = ''https://video.pollinations.ai/prompt/one?duration=10&fps=30''
     \<and> video (primary_content out') = ''https://video.pollinations.ai/prompt/two?duration=10&fps=30''"
    using o o' tl fm rr by blast
qed

subsection \<open>What the enhanced prompt embeds\<close>

lemma wheat_prompt_has_wheat_field:
  "str_in ''wheat field'' (lower (text_prompt wheat_request))"
  by code_simp

text \<open>
  Claim C10, as the code has it.  When the lower-cased \<^verbatim>\<open>text_prompt\<close> contains
  \<^verbatim>\<open>wheat field\<close>, the enhanced prompt is the wheat-field template, which is built from
  \<^verbatim>\<open>emotion\<close>, \<^verbatim>\<open>camera_angle\<close>, \<^verbatim>\<open>style\<close> and \<^verbatim>\<open>intensity\<close> only: any two such requests
  that agree on these four fields get the same enhanced prompt, whatever their
  \<^verbatim>\<open>text_prompt\<close>.  Otherwise the enhanced prompt is the generic template, in which the
  \<^verbatim>\<open>text_prompt\<close> stands verbatim after \<^verbatim>\<open>shot featuring\<close>.
\<close>

theorem enhance_text_prompt_embeds:
  "(str_in ''wheat field'' (lower (text_prompt req)) \<longrightarrow>
      fst (enhance_text_prompt req w) = wheat_field_template req
      \<and> (\<forall>req' w'.
            str_in ''wheat field'' (lower (text_prompt req'))
            \<and> emotion req' = emotion req \<and> camera_angle req' = camera_angle req
            \<and> style req' = style req \<and> intensity req' = intensity req
            \<longrightarrow> fst (enhance_text_prompt req' w') = fst (enhance_text_prompt req w)))
   \<and> (\<not> str_in ''wheat field'' (lower (text_prompt req)) \<longrightarrow>
        fst (enhance_text_prompt req w) = generic_template req
        \<and> (\<exists>post. fst (enhance_text_prompt req w) =
              ''Professional '' @ style req @ '' '' @ camera_angle req @ '' shot featuring ''
              @ text_prompt req @ post)
        \<and> str_in (text_prompt req) (fst (enhance_text_prompt req w)))"
proof -
  have "str_in (text_prompt req) (generic_template req)"
    unfolding str_in_iff generic_template_def
    by (intro exI [of _ "''Professional '' @ style req @ '' '' @ camera_angle req
          @ '' shot featuring ''"]
        exI [of _ "''. Emotional tone: '' @ emotion req @ '' at '' @ intensity_percent req
          @ ''% intensity. Cinematic lighting and composition optimized for AI generation.''"])
      simp
  moreover have "\<exists>post. generic_template req =
      ''Professional '' @ style req @ '' '' @ camera_angle req @ '' shot featuring ''
      @ text_prompt req @ post"
    by (simp add: generic_template_def)
  ultimately show ?thesis
    by (auto simp: enhance_value wheat_field_template_def intensity_percent_def
        simp del: append.simps)
qed

theorem enhance_text_prompt_embeds_witness:
  "fst (enhance_text_prompt wheat_request example_world)
     = fst (enhance_text_prompt example_request example_world)
   \<and> str_in ''a city at night'' (fst (enhance_text_prompt plain_request example_world))"
proof -
  have same: "emotion wheat_request = emotion example_request"
    "camera_angle wheat_request = camera_angle example_request"
    "style wheat_request = style example_request"
    "intensity wheat_request = intensity example_request"
    and plain: "text_prompt plain_request = ''a city at night''"
    by (simp_all add: wheat_request_def plain_request_def)
  from enhance_text_prompt_embeds [of example_request example_world]
    example_prompt_has_wheat_field wheat_prompt_has_wheat_field same
  have "fst (enhance_text_prompt wheat_request example_world)
     = fst (enhance_text_prompt example_request example_world)"
    by blast
  moreover from enhance_text_prompt_embeds [of plain_request example_world]
    plain_prompt_has_no_wheat_field plain
  have "str_in ''a city at night'' (fst (enhance_text_prompt plain_request example_world))"
    by metis
  ultimately show ?thesis by blast
qed

text \<open>
  The fixed narrative itself says \<^verbatim>\<open>golden wheat field\<close>: the prompt \<^verbatim>\<open>wheat field\<close>
  takes the wheat-field branch and does occur in the enhanced prompt.
\<close>

theorem wheat_field_prompt_appears:
  "str_in ''wheat field'' (lower (text_prompt wheat_request))
   \<and> str_in (text_prompt wheat_request) (fst (enhance_text_prompt wheat_request example_world))"
proof -
  have "text_prompt wheat_request = ''wheat field''"
    by (simp add: wheat_request_def)
  moreover have "str_in ''wheat field'' (wheat_field_template wheat_request)"
    unfolding str_in_iff wheat_field_template_def
    by (intro exI [of _ "''Cinematic '' @ camera_angle wheat_request
          @ '' shot of a young boy with '' @ emotion wheat_request
          @ '' expression, running through a golden ''"]
        exI [of _ "'' at golden hour. Warm sunlight creates dramatic backlighting, wheat stalks swaying in gentle breeze. Dynamic movement with ''
          @ style wheat_request @ '' cinematography, '' @ intensity_percent wheat_request
          @ ''% emotional intensity. Professional color grading with warm amber tones.''"])
      simp
  ultimately show ?thesis
    using wheat_prompt_has_wheat_field by (simp add: enhance_value)
qed

subsection \<open>The lip-sync timestamps\<close>

lemma comprehension_nth:
  "comprehension f xs = Inr ys \<Longrightarrow>
     length ys = length xs \<and> (\<forall>i<length xs. f (xs ! i) = Inr (ys ! i))"
proof (induction xs arbitrary: ys)
  case Nil
  then show ?case by simp
next
  case (Cons x xs)
  from Cons.prems obtain y zs
    where y: "f x = Inr y" and zs: "comprehension f xs = Inr zs" and ys: "ys = y # zs"
    by (auto split: sum.splits)
  from Cons.IH [OF zs] have len: "length zs = length xs"
    and nth: "\<forall>i<length xs. f (xs ! i) = Inr (zs ! i)" by auto
  show ?case
  proof (intro conjI allI impI)
    show "length ys = length (x # xs)" using ys len by simp
  next
    fix i assume "i < length (x # xs)"
    then show "f ((x # xs) ! i) = Inr (ys ! i)"
      using y nth ys by (cases i) auto
  qed
qed

lemma timestamps_checked:
  "case comprehension (\<lambda>i. int_mul_float i (decimal 1 1)) (map int [0..<50]) of
     Inl e \<Rightarrow> False
   | Inr ts \<Rightarrow>
       ts ! 0 = Finite False 0 0 \<and> ts ! 49 = decimal 49 1
       \<and> list_all (\<lambda>i. float_lt (ts ! i) (ts ! Suc i)) [0..<49]"
  by code_simp

lemma timestamps_facts:
  "\<exists>ts. comprehension (\<lambda>i. int_mul_float i (decimal 1 1)) (map int [0..<50]) = Inr ts
     \<and> length ts = 50
     \<and> ts ! 0 = Finite False 0 0
     \<and> (\<forall>i<50. int_mul_float (int i) (decimal 1 1) = Inr (ts ! i))
     \<and> (\<forall>i<49. float_lt (ts ! i) (ts ! Suc i))
     \<and> ts ! 49 = decimal 49 1"
proof -
  let ?c = "comprehension (\<lambda>i. int_mul_float i (decimal 1 1)) (map int [0..<50])"
  from timestamps_checked obtain ts where ts: "?c = Inr ts"
    and first: "ts ! 0 = Finite False 0 0" and last: "ts ! 49 = decimal 49 1"
    and lt: "list_all (\<lambda>i. float_lt (ts ! i) (ts ! Suc i)) [0..<49]"
    by (cases ?c) auto
  from comprehension_nth [OF ts] have len: "length ts = 50"
    and nth: "\<forall>i<50. int_mul_float (int i) (decimal 1 1) = Inr (ts ! i)"
    by (auto simp del: upt_Suc)
  from lt have "\<forall>i<49. float_lt (ts ! i) (ts ! Suc i)"
    by (simp add: list_all_iff del: upt_Suc)
  with ts len first nth last show ?thesis by blast
qed

subsection \<open>The stages\<close>

lemma enhance_world: "snd (enhance_text_prompt req w) = asyncio_sleep (decimal 5 1) w"
  by (simp add: enhance_text_prompt_def Let_def)

lemma visuals_world: "snd (generate_visuals req e w) = asyncio_sleep (decimal 20 1) w"
  by (simp add: generate_visuals_def Let_def)

lemma visuals_videos: "videos (fst (generate_visuals req e w)) \<noteq> []"
  by (simp add: generate_visuals_def Let_def)

lemma audio_world: "snd (generate_audio req e w) = asyncio_sleep (decimal 15 1) w"
  by (simp add: generate_audio_def Let_def split: sum.splits)

lemma audio_returns: "\<exists>out. fst (generate_audio req e w) = Inr out"
  using timestamps_facts by (auto simp: generate_audio_def Let_def)

lemma fuse_world: "snd (fuse_modalities v a req w) = asyncio_sleep (decimal 10 1) w"
  by (simp add: fuse_modalities_def Let_def split: list.splits)

lemma fuse_returns: "videos v \<noteq> [] \<Longrightarrow> \<exists>out. fst (fuse_modalities v a req w) = Inr out"
  by (cases "videos v") (auto simp: fuse_modalities_def Let_def)

lemma length_concat_replicate: "length (concat (replicate n xs)) = n * length xs"
  by (induction n) simp_all

text \<open>
  Claim C5.  Every call of \<^verbatim>\<open>_generate_audio\<close> returns, and the lip-sync data it returns
  has 50 phonemes, 50 timestamps and 50 mouth shapes.  The first timestamp is \<^verbatim>\<open>0.0\<close>, the
  timestamp of index \<open>i\<close> is the float product \<^verbatim>\<open>i * 0.1\<close>, every timestamp is less than
  the next one, and the last one is the float \<^verbatim>\<open>4.9\<close>.
\<close>

theorem generate_audio_lipsync:
  "\<exists>out. fst (generate_audio req enhanced_text w) = Inr out
     \<and> length (phonemes (lipsync_data (audio_outputs.voice out))) = 50
     \<and> length (timestamps (lipsync_data (audio_outputs.voice out))) = 50
     \<and> length (mouth_shapes (lipsync_data (audio_outputs.voice out))) = 50
     \<and> timestamps (lipsync_data (audio_outputs.voice out)) ! 0 = Finite False 0 0
     \<and> (\<forall>i<50. int_mul_float (int i) (decimal 1 1)
                  = Inr (timestamps (lipsync_data (audio_outputs.voice out)) ! i))
     \<and> (\<forall>i<49. float_lt (timestamps (lipsync_data (audio_outputs.voice out)) ! i)
                  (timestamps (lipsync_data (audio_outputs.voice out)) ! Suc i))
     \<and> timestamps (lipsync_data (audio_outputs.voice out)) ! 49 = decimal 49 1"
proof -
  from timestamps_facts obtain ts
    where ts: "comprehension (\<lambda>i. int_mul_float i (decimal 1 1)) (map int [0..<50]) = Inr ts"
      and facts: "length ts = 50" "ts ! 0 = Finite False 0 0"
        "\<forall>i<50. int_mul_float (int i) (decimal 1 1) = Inr (ts ! i)"
        "\<forall>i<49. float_lt (ts ! i) (ts ! Suc i)" "ts ! 49 = decimal 49 1"
    by blast
  show ?thesis
    unfolding generate_audio_def Let_def ts using facts
    by (simp add: length_concat_replicate)
qed

lemma three_tenths: "int_mul_float 3 (decimal 1 1) = Inr (Finite False 1351079888211149 (- 52))"
  by code_simp

theorem generate_audio_lipsync_witness:
  "\<exists>out. fst (generate_audio example_request ''a prompt'' example_world) = Inr out
     \<and> length (timestamps (lipsync_data (audio_outputs.voice out))) = 50
     \<and> timestamps (lipsync_data (audio_outputs.voice out)) ! 3
         = Finite False 1351079888211149 (- 52)
     \<and> float_lt (timestamps (lipsync_data (audio_outputs.voice out)) ! 3)
          (timestamps (lipsync_data (audio_outputs.voice out)) ! 4)"
proof -
  let ?ts = "\<lambda>out. timestamps (lipsync_data (audio_outputs.voice out))"
  from generate_audio_lipsync [of example_request "''a prompt''" example_world]
  obtain out where out: "fst (generate_audio example_request ''a prompt'' example_world) = Inr out"
    and len: "length (?ts out) = 50"
    and nth: "\<forall>i<50. int_mul_float (int i) (decimal 1 1) = Inr (?ts out ! i)"
    and lt: "\<forall>i<49. float_lt (?ts out ! i) (?ts out ! Suc i)"
    by blast
  from nth [rule_format, of 3] three_tenths
  have "?ts out ! 3 = Finite False 1351079888211149 (- 52)" by simp
  moreover from lt [rule_format, of 3] have "float_lt (?ts out ! 3) (?ts out ! 4)" by simp
  ultimately show ?thesis using out len by blast
qed

subsection \<open>A call of the pipeline\<close>

lemma process_run:
  "\<exists>enhanced visual audio_out fused w3 w4 w5 w6 w7.
     w3 = logger_info (''Starting multimodal processing for scene '' @ scene_id req)
            (snd (uuid4 (snd (time_time w))))
     \<and> enhance_text_prompt req w3 = (enhanced, w4)
     \<and> generate_visuals req enhanced w4 = (visual, w5)
     \<and> generate_audio req enhanced w5 = (Inr audio_out, w6)
     \<and> fuse_modalities visual audio_out req w6 = (Inr fused, w7)
     \<and> process_multimodal_scene req w =
         (Inr \<lparr>request_id = uuid_source w (uuid_count w),
               GenerationResult.scene_id = scene_id req,
               status = ''completed'',
               outputs = fused,
               metadata =
                 \<lparr>enhanced_prompt = enhanced,
                  models_used = models req,
                  emotion_context =
                    \<lparr>emotion_context.emotion = emotion req,
                     emotion_context.intensity = intensity req\<rparr>,
                  processing_stages =
                    [''text_enhancement'', ''visual_generation'', ''audio_generation'',
                     ''fusion'']\<rparr>,
               processing_time =
                 float_sub (clock w (Suc (clock_count w))) (clock w (clock_count w))\<rparr>,
          w\<lparr>uuid_count := Suc (uuid_count w),
            clock_count := Suc (Suc (clock_count w)),
            trace := trace w
              @ [LogInfo (''Starting multimodal processing for scene '' @ scene_id req),
                 Sleep (decimal 5 1), Sleep (decimal 20 1), Sleep (decimal 15 1),
                 Sleep (decimal 10 1)]\<rparr>)"
proof -
  define w1 where "w1 = snd (time_time w)"
  define w2 where "w2 = snd (uuid4 w1)"
  define w3
    where "w3 = logger_info (''Starting multimodal processing for scene '' @ scene_id req) w2"
  define enhanced where "enhanced = fst (enhance_text_prompt req w3)"
  define w4 where "w4 = asyncio_sleep (decimal 5 1) w3"
  define visual where "visual = fst (generate_visuals req enhanced w4)"
  define w5 where "w5 = asyncio_sleep (decimal 20 1) w4"
  define w6 where "w6 = asyncio_sleep (decimal 15 1) w5"
  define w7 where "w7 = asyncio_sleep (decimal 10 1) w6"
  define w8 where "w8 = snd (time_time w7)"
  obtain audio_out where a: "fst (generate_audio req enhanced w5) = Inr audio_out"
    using audio_returns by blast
  have "videos visual \<noteq> []" by (simp add: visual_def visuals_videos)
  then obtain fused where f: "fst (fuse_modalities visual audio_out req w6) = Inr fused"
    using fuse_returns by blast
  have t1: "time_time w = (clock w (clock_count w), w1)"
    by (simp add: w1_def time_time_def)
  have t2: "uuid4 w1 = (uuid_source w (uuid_count w), w2)"
    by (simp add: w2_def w1_def uuid4_def time_time_def)
  have t4: "enhance_text_prompt req w3 = (enhanced, w4)"
    by (simp add: enhanced_def w4_def prod_eq_iff enhance_world)
  have t5: "generate_visuals req enhanced w4 = (visual, w5)"
    by (simp add: visual_def w5_def prod_eq_iff visuals_world)
  have t6: "generate_audio req enhanced w5 = (Inr audio_out, w6)"
    by (simp add: a [symmetric] w6_def prod_eq_iff audio_world)
  have t7: "fuse_modalities visual audio_out req w6 = (Inr fused, w7)"
    by (simp add: f [symmetric] w7_def prod_eq_iff fuse_world)
  have t8: "time_time w7 = (clock w (Suc (clock_count w)), w8)"
    by (simp add: w8_def w7_def w6_def w5_def w4_def w3_def w2_def w1_def time_time_def
        uuid4_def logger_info_def asyncio_sleep_def)
  have w8: "w8 = w\<lparr>uuid_count := Suc (uuid_count w),
            clock_count := Suc (Suc (clock_count w)),
            trace := trace w
              @ [LogInfo (''Starting multimodal processing for scene '' @ scene_id req),
                 Sleep (decimal 5 1), Sleep (decimal 20 1), Sleep (decimal 15 1),
                 Sleep (decimal 10 1)]\<rparr>"
    by (simp add: w8_def w7_def w6_def w5_def w4_def w3_def w2_def w1_def time_time_def
        uuid4_def logger_info_def asyncio_sleep_def)
  have p: "process_multimodal_scene req w =
         (Inr \<lparr>request_id = uuid_source w (uuid_count w),
               GenerationResult.scene_id = scene_id req,
               status = ''completed'',
               outputs = fused,
               metadata =
                 \<lparr>enhanced_prompt = enhanced,
                  models_used = models req,
                  emotion_context =
                    \<lparr>emotion_context.emotion = emotion req,
                     emotion_context.intensity = intensity req\<rparr>,
                  processing_stages =
                    [''text_enhancement'', ''visual_generation'', ''audio_generation'',
                     ''fusion'']\<rparr>,
               processing_time =
                 float_sub (clock w (Suc (clock_count w))) (clock w (clock_count w))\<rparr>,
          w8)"
    unfolding process_multimodal_scene_def Let_def t1 prod.case t2 w3_def [symmetric] t4 t5
      t6 sum.case t7 t8
    by (rule refl)
  have "w3 = logger_info (''Starting multimodal processing for scene '' @ scene_id req)
            (snd (uuid4 (snd (time_time w))))"
    by (simp add: w3_def w2_def w1_def)
  with t4 t5 t6 t7 p [unfolded w8] show ?thesis by blast
qed

lemma process_world:
  "snd (process_multimodal_scene req w) =
     w\<lparr>uuid_count := Suc (uuid_count w),
       clock_count := Suc (Suc (clock_count w)),
       trace := trace w
         @ [LogInfo (''Starting multimodal processing for scene '' @ scene_id req),
            Sleep (decimal 5 1), Sleep (decimal 20 1), Sleep (decimal 15 1),
            Sleep (decimal 10 1)]\<rparr>"
  using process_run [of req w] by auto

lemma process_request_id:
  "\<exists>result. fst (process_multimodal_scene req w) = Inr result
     \<and> request_id result = uuid_source w (uuid_count w)"
  using process_run [of req w] by auto

text \<open>
  Claim C1.  For every request, \<^verbatim>\<open>process_multimodal_scene\<close> runs four stages in this
  order: text enhancement, visual generation with the enhanced prompt, audio generation
  with the enhanced prompt, and fusion of the visual and the audio outputs.  No stage
  raises, and the call returns a result whose \<^verbatim>\<open>status\<close> is \<^verbatim>\<open>completed\<close>, whose
  \<^verbatim>\<open>scene_id\<close> is the request's, whose \<^verbatim>\<open>outputs\<close> are the fused outputs and whose
  \<^verbatim>\<open>metadata\<close> holds the enhanced prompt, the request's models, the emotion context and
  the list of the four stage names.  The effects of the call are one log line and then
  the sleeps of the four stages, in the order of the stages.
\<close>

theorem process_multimodal_scene_stages:
  "\<exists>enhanced visual audio_out fused w3 w4 w5 w6 w7 result w8.
     w3 = logger_info (''Starting multimodal processing for scene '' @ scene_id req)
            (snd (uuid4 (snd (time_time w))))
     \<and> enhance_text_prompt req w3 = (enhanced, w4)
     \<and> generate_visuals req enhanced w4 = (visual, w5)
     \<and> generate_audio req enhanced w5 = (Inr audio_out, w6)
     \<and> fuse_modalities visual audio_out req w6 = (Inr fused, w7)
     \<and> process_multimodal_scene req w = (Inr result, w8)
     \<and> status result = ''completed''
     \<and> GenerationResult.scene_id result = scene_id req
     \<and> outputs result = fused
     \<and> metadata result =
           \<lparr>enhanced_prompt = enhanced,
            models_used = models req,
            emotion_context =
              \<lparr>emotion_context.emotion = emotion req,
               emotion_context.intensity = intensity req\<rparr>,
            processing_stages =
              [''text_enhancement'', ''visual_generation'', ''audio_generation'',
               ''fusion'']\<rparr>
     \<and> trace w8 = trace w
           @ [LogInfo (''Starting multimodal processing for scene '' @ scene_id req),
              Sleep (decimal 5 1), Sleep (decimal 20 1), Sleep (decimal 15 1),
              Sleep (decimal 10 1)]"
proof -
  from process_run [of req w] obtain enhanced visual audio_out fused w3 w4 w5 w6 w7 result w8
    where "w3 = logger_info (''Starting multimodal processing for scene '' @ scene_id req)
            (snd (uuid4 (snd (time_time w))))"
      and "enhance_text_prompt req w3 = (enhanced, w4)"
      and "generate_visuals req enhanced w4 = (visual, w5)"
      and "generate_audio req enhanced w5 = (Inr audio_out, w6)"
      and "fuse_modalities visual audio_out req w6 = (Inr fused, w7)"
      and "process_multimodal_scene req w = (Inr result, w8)"
      and "result = \<lparr>request_id = uuid_source w (uuid_count w),
               GenerationResult.scene_id = scene_id req,
               status = ''completed'',
               outputs = fused,
               metadata =
                 \<lparr>enhanced_prompt = enhanced,
                  models_used = models req,
                  emotion_context =
                    \<lparr>emotion_context.emotion = emotion req,
                     emotion_context.intensity = intensity req\<rparr>,
                  processing_stages =
                    [''text_enhancement'', ''visual_generation'', ''audio_generation'',
                     ''fusion'']\<rparr>,
               processing_time =
                 float_sub (clock w (Suc (clock_count w))) (clock w (clock_count w))\<rparr>"
      and "w8 = w\<lparr>uuid_count := Suc (uuid_count w),
            clock_count := Suc (Suc (clock_count w)),
            trace := trace w
              @ [LogInfo (''Starting multimodal processing for scene '' @ scene_id req),
                 Sleep (decimal 5 1), Sleep (decimal 20 1), Sleep (decimal 15 1),
                 Sleep (decimal 10 1)]\<rparr>"
    by blast
  moreover from this have "status result = ''completed''"
    and "GenerationResult.scene_id result = scene_id req"
    and "outputs result = fused"
    and "metadata result =
           \<lparr>enhanced_prompt = enhanced,
            models_used = models req,
            emotion_context =
              \<lparr>emotion_context.emotion = emotion req,
               emotion_context.intensity = intensity req\<rparr>,
            processing_stages =
              [''text_enhancement'', ''visual_generation'', ''audio_generation'',
               ''fusion'']\<rparr>"
    and "trace w8 = trace w
           @ [LogInfo (''Starting multimodal processing for scene '' @ scene_id req),
              Sleep (decimal 5 1), Sleep (decimal 20 1), Sleep (decimal 15 1),
              Sleep (decimal 10 1)]"
    by simp_all
  ultimately show ?thesis by blast
qed

theorem process_multimodal_scene_stages_witness:
  "\<exists>result w8.
     process_multimodal_scene example_request example_world = (Inr result, w8)
     \<and> status result = ''completed''
     \<and> GenerationResult.scene_id result = ''scene-001''
     \<and> enhanced_prompt (metadata result) = wheat_field_template example_request
     \<and> processing_stages (metadata result) =
           [''text_enhancement'', ''visual_generation'', ''audio_generation'', ''fusion'']
     \<and> trace w8 =
           [LogInfo ''Starting multimodal processing for scene scene-001'',
            Sleep (decimal 5 1), Sleep (decimal 20 1), Sleep (decimal 15 1),
            Sleep (decimal 10 1)]"
proof -
  have e: "fst (enhance_text_prompt example_request w) = wheat_field_template example_request"
    for w
    using example_prompt_has_wheat_field by (simp add: enhance_value)
  have s: "scene_id example_request = ''scene-001''"
    by (simp add: example_request_def)
  have t: "trace example_world = []"
    by (simp add: example_world_def initial_world_def)
  from process_multimodal_scene_stages [of example_request example_world]
  show ?thesis
    using e s t by (metis append_Nil fst_conv metadata.select_convs(1) append.simps(2) metadata.select_convs(4))
qed

subsection \<open>Identifiers\<close>

lemma generate_example_accepted:
  "generate_multimodal (body_with_intensity (JFloat (decimal 8 1))) example_world =
     (\<lparr>body = JDict [(''job_id'', JStr ''u''),
                     (''status'', JStr ''processing''),
                     (''estimated_time'', JInt 30),
                     (''progress_url'', JStr ''/api/v1/jobs/u/status'')],
       status_code = 202\<rparr>,
      register_job ''u'' (example_world\<lparr>uuid_count := Suc 0\<rparr>))"
proof -
  have "get_json (body_with_intensity (JFloat (decimal 8 1))) example_world
      = Inr (body_with_intensity (JFloat (decimal 8 1)))"
    by (rule get_json_body_with_intensity) simp
  then show ?thesis
    unfolding generate_multimodal_def
    by (simp add: body_with_intensity_def required_fields_def make_request_def bind_exn_def
        uuid4_def example_world_def initial_world_def)
qed

lemma generate_cases:
  "(\<exists>e. generate_multimodal data w = internal_server_error e w)
   \<or> (\<exists>field. generate_multimodal data w =
         (\<lparr>body = JDict [(''error'', JStr (''Missing required field: '' @ field))],
           status_code = 400\<rparr>, w))
   \<or> generate_multimodal data w =
        (\<lparr>body = JDict [(''job_id'', JStr (uuid_source w (uuid_count w))),
                        (''status'', JStr ''processing''),
                        (''estimated_time'', JInt 30),
                        (''progress_url'',
                           JStr (''/api/v1/jobs/'' @ uuid_source w (uuid_count w) @ ''/status''))],
          status_code = 202\<rparr>,
         register_job (uuid_source w (uuid_count w)) (w\<lparr>uuid_count := Suc (uuid_count w)\<rparr>))"
  by (auto simp: generate_multimodal_def uuid4_def Let_def split: sum.splits option.splits)

lemma generate_uuid:
  "uuid_source (snd (generate_multimodal data w)) = uuid_source w
   \<and> uuid_count w \<le> uuid_count (snd (generate_multimodal data w))"
  using generate_cases [of data w]
  by (auto simp: internal_server_error_def logger_error_def register_job_def)

lemma after_uuid:
  "uuid_source (after ev w) = uuid_source w \<and> uuid_count w \<le> uuid_count (after ev w)"
  by (cases ev) (simp_all add: generate_uuid process_world)

lemma run_Cons: "run (ev # events) w = run events (after ev w)"
  by (simp add: run_def)

lemma run_uuid:
  "uuid_source (run events w) = uuid_source w \<and> uuid_count w \<le> uuid_count (run events w)"
proof (induction events arbitrary: w)
  case Nil
  show ?case by (simp add: run_def)
next
  case (Cons ev events)
  from Cons [of "after ev w"] after_uuid [of ev w] show ?case
    by (auto simp: run_Cons)
qed

text \<open>
  Claim C8.  When the source of identifiers never repeats a value, a call of
  \<^verbatim>\<open>process_multimodal_scene\<close> and any later call of it, whatever happens in between and
  also for the same request, return results with different \<^verbatim>\<open>request_id\<close>.
\<close>

theorem request_ids_distinct:
  assumes "inj (uuid_source w)"
  shows "\<exists>r1 w1 r2 w2.
           process_multimodal_scene req1 w = (Inr r1, w1)
           \<and> process_multimodal_scene req2 (run events w1) = (Inr r2, w2)
           \<and> request_id r1 \<noteq> request_id r2"
proof -
  define w1 where "w1 = snd (process_multimodal_scene req1 w)"
  define w2 where "w2 = snd (process_multimodal_scene req2 (run events w1))"
  obtain r1 where r1: "fst (process_multimodal_scene req1 w) = Inr r1"
    and id1: "request_id r1 = uuid_source w (uuid_count w)"
    using process_request_id by blast
  obtain r2 where r2: "fst (process_multimodal_scene req2 (run events w1)) = Inr r2"
    and id2: "request_id r2 = uuid_source (run events w1) (uuid_count (run events w1))"
    using process_request_id by blast
  have source: "uuid_source (run events w1) = uuid_source w"
    using run_uuid [of events w1] by (simp add: w1_def process_world)
  have later: "uuid_count w < uuid_count (run events w1)"
    using run_uuid [of events w1] by (simp add: w1_def process_world)
  have "uuid_source w (uuid_count w) \<noteq> uuid_source w (uuid_count (run events w1))"
  proof
    assume "uuid_source w (uuid_count w) = uuid_source w (uuid_count (run events w1))"
    with assms have "uuid_count w = uuid_count (run events w1)" by (rule injD)
    with later show False by simp
  qed
  then have "request_id r1 \<noteq> request_id r2"
    by (simp add: id1 id2 source)
  moreover have "process_multimodal_scene req1 w = (Inr r1, w1)"
    by (simp add: prod_eq_iff r1 w1_def)
  moreover have "process_multimodal_scene req2 (run events w1) = (Inr r2, w2)"
    by (simp add: prod_eq_iff r2 w2_def)
  ultimately show ?thesis by blast
qed

theorem request_ids_distinct_witness:
  "\<exists>r1 w1 r2 w2.
     process_multimodal_scene example_request example_world = (Inr r1, w1)
     \<and> process_multimodal_scene example_request
          (run [Generate (body_with_intensity (JFloat (decimal 8 1)))] w1) = (Inr r2, w2)
     \<and> request_id r1 \<noteq> request_id r2"
proof -
  have "inj (uuid_source example_world)"
    by (simp add: example_world_def initial_world_def inj_def)
  then show ?thesis
    by (rule request_ids_distinct
        [of example_world example_request example_request
          "[Generate (body_with_intensity (JFloat (decimal 8 1)))]"])
qed

subsection \<open>The job registry\<close>

lemma ran_subset_iff: "ran m \<subseteq> S \<longleftrightarrow> (\<forall>k v. m k = Some v \<longrightarrow> v \<in> S)"
  by (auto simp: ran_def)

lemma generate_registry:
  "ran (active_jobs (fusion_engine w)) \<subseteq> {''processing''} \<Longrightarrow>
     ran (active_jobs (fusion_engine (snd (generate_multimodal data w)))) \<subseteq> {''processing''}"
  using generate_cases [of data w]
  by (auto simp: internal_server_error_def logger_error_def register_job_def ran_subset_iff
      split: if_splits)

lemma after_registry:
  "ran (active_jobs (fusion_engine w)) \<subseteq> {''processing''} \<Longrightarrow>
     ran (active_jobs (fusion_engine (after ev w))) \<subseteq> {''processing''}"
  by (cases ev) (simp_all add: generate_registry process_world)

lemma run_registry:
  "ran (active_jobs (fusion_engine w)) \<subseteq> {''processing''} \<Longrightarrow>
     ran (active_jobs (fusion_engine (run events w))) \<subseteq> {''processing''}"
proof (induction events arbitrary: w)
  case Nil
  then show ?case by (simp add: run_def)
next
  case (Cons ev events)
  from Cons.IH [OF after_registry [OF Cons.prems]] show ?case
    by (simp add: run_Cons)
qed

lemma generate_dom:
  "dom (active_jobs (fusion_engine w))
     \<subseteq> dom (active_jobs (fusion_engine (snd (generate_multimodal data w))))"
  using generate_cases [of data w]
  by (auto simp: internal_server_error_def logger_error_def register_job_def)

lemma generate_not_accepted:
  "status_code (fst (generate_multimodal data w)) \<noteq> 202 \<Longrightarrow>
     fusion_engine (snd (generate_multimodal data w)) = fusion_engine w"
  using generate_cases [of data w]
  by (auto simp: internal_server_error_def logger_error_def)

lemma generate_accepted:
  "status_code (fst (generate_multimodal data w)) = 202 \<Longrightarrow>
     generate_multimodal data w =
       (\<lparr>body = JDict [(''job_id'', JStr (uuid_source w (uuid_count w))),
                       (''status'', JStr ''processing''),
                       (''estimated_time'', JInt 30),
                       (''progress_url'',
                          JStr (''/api/v1/jobs/'' @ uuid_source w (uuid_count w) @ ''/status''))],
         status_code = 202\<rparr>,
        w\<lparr>uuid_count := Suc (uuid_count w),
          fusion_engine := (fusion_engine w)
            \<lparr>active_jobs :=
               (active_jobs (fusion_engine w))(uuid_source w (uuid_count w) \<mapsto> ''processing'')\<rparr>\<rparr>)"
  using generate_cases [of data w]
  by (auto simp: internal_server_error_def register_job_def)

text \<open>
  Claim C7.  In every state that a run of the process reaches from its start, every value
  in \<^verbatim>\<open>active_jobs\<close> is the string \<^verbatim>\<open>processing\<close>.  No event removes a key.  Only a request
  to \<^verbatim>\<open>generate_multimodal\<close> can change the registry, and it does so only when it answers
  202: then the body holds \<^verbatim>\<open>job_id\<close>, the status \<^verbatim>\<open>processing\<close>, \<^verbatim>\<open>estimated_time\<close> and
  \<^verbatim>\<open>progress_url\<close>, one fresh identifier is registered, and the trace of effects is as
  before, whereas every call of \<^verbatim>\<open>process_multimodal_scene\<close> extends the trace: the
  handler does not call the pipeline.
\<close>

theorem active_jobs_only_processing:
  "ran (active_jobs (fusion_engine (run events (initial_world ids readings h max_digits headroom env_key))))
     \<subseteq> {''processing''}
   \<and> dom (active_jobs (fusion_engine w)) \<subseteq> dom (active_jobs (fusion_engine (after ev w)))
   \<and> ((\<forall>data. ev \<noteq> Generate data) \<longrightarrow> fusion_engine (after ev w) = fusion_engine w)
   \<and> (status_code (fst (generate_multimodal data w)) \<noteq> 202 \<longrightarrow>
        fusion_engine (snd (generate_multimodal data w)) = fusion_engine w)
   \<and> (status_code (fst (generate_multimodal data w)) = 202 \<longrightarrow>
        generate_multimodal data w =
          (\<lparr>body = JDict [(''job_id'', JStr (uuid_source w (uuid_count w))),
                          (''status'', JStr ''processing''),
                          (''estimated_time'', JInt 30),
                          (''progress_url'',
                             JStr (''/api/v1/jobs/'' @ uuid_source w (uuid_count w)
                                   @ ''/status''))],
            status_code = 202\<rparr>,
           w\<lparr>uuid_count := Suc (uuid_count w),
             fusion_engine := (fusion_engine w)
               \<lparr>active_jobs :=
                  (active_jobs (fusion_engine w))
                    (uuid_source w (uuid_count w) \<mapsto> ''processing'')\<rparr>\<rparr>))
   \<and> trace (snd (process_multimodal_scene req w)) \<noteq> trace w"
proof -
  have "ran (active_jobs (fusion_engine (initial_world ids readings h max_digits headroom env_key)))
          \<subseteq> {''processing''}"
    by (simp add: initial_world_def ModelFusionEngine_init_def)
  then have "ran (active_jobs (fusion_engine (run events (initial_world ids readings h max_digits headroom env_key))))
     \<subseteq> {''processing''}"
    by (rule run_registry)
  moreover have "dom (active_jobs (fusion_engine w))
      \<subseteq> dom (active_jobs (fusion_engine (after ev w)))"
    by (cases ev) (simp_all add: generate_dom process_world)
  moreover have "(\<forall>data. ev \<noteq> Generate data) \<longrightarrow> fusion_engine (after ev w) = fusion_engine w"
    by (cases ev) (simp_all add: process_world)
  moreover have "trace (snd (process_multimodal_scene req w)) \<noteq> trace w"
    by (simp add: process_world)
  ultimately show ?thesis
    using generate_not_accepted [of data w] generate_accepted [of data w] by blast
qed

theorem active_jobs_only_processing_witness:
  "active_jobs
     (fusion_engine
        (run [Generate (body_with_intensity (JFloat (decimal 8 1))), Status ''u'',
              Elsewhere [LogInfo ''health'']] example_world)) ''u''
     = Some ''processing''"
proof -
  from generate_example_accepted have "''u'' \<in> dom (active_jobs (fusion_engine
        (run [Generate (body_with_intensity (JFloat (decimal 8 1))), Status ''u'',
              Elsewhere [LogInfo ''health'']] example_world)))"
    by (simp add: run_def register_job_def)
  then obtain s where s: "active_jobs (fusion_engine
        (run [Generate (body_with_intensity (JFloat (decimal 8 1))), Status ''u'',
              Elsewhere [LogInfo ''health'']] example_world)) ''u'' = Some s"
    by blast
  have "ran (active_jobs (fusion_engine
        (run [Generate (body_with_intensity (JFloat (decimal 8 1))), Status ''u'',
              Elsewhere [LogInfo ''health'']] example_world))) \<subseteq> {''processing''}"
    unfolding example_world_def by (rule active_jobs_only_processing [THEN conjunct1])
  with s have "s = ''processing''"
    by (auto simp: ran_subset_iff)
  with s show ?thesis by simp
qed

subsection \<open>The status of a job\<close>

text \<open>
  Claim C6.  \<^verbatim>\<open>get_job_status\<close> answers 404 with \<^verbatim>\<open>{"error": "Job not found"}\<close> exactly
  when the identifier is not a key of \<^verbatim>\<open>active_jobs\<close>, and the mock result with status 200
  exactly when it is one.  The mock result does not depend on the value stored for the
  key nor on a call of the pipeline.  It is one payload: it echoes the identifier, its
  status is \<^verbatim>\<open>completed\<close>, its progress is 100, and its result is the scene \<^verbatim>\<open>scene-001\<close>
  with the two URLs at \<^verbatim>\<open>example.com\<close>, the scores \<^verbatim>\<open>0.94\<close>, \<^verbatim>\<open>0.91\<close> and \<^verbatim>\<open>0.96\<close>, and
  the processing time \<^verbatim>\<open>25.3\<close>.
\<close>

theorem get_job_status_fixed:
  "(get_job_status job_id w =
      \<lparr>body = JDict [(''error'', JStr ''Job not found'')], status_code = 404\<rparr>
      \<longleftrightarrow> job_id \<notin> dom (active_jobs (fusion_engine w)))
   \<and> (status_code (get_job_status job_id w) = 404
      \<longleftrightarrow> job_id \<notin> dom (active_jobs (fusion_engine w)))
   \<and> (get_job_status job_id w = \<lparr>body = mock_result job_id, status_code = 200\<rparr>
      \<longleftrightarrow> job_id \<in> dom (active_jobs (fusion_engine w)))
   \<and> get_job_status job_id
       (w\<lparr>fusion_engine := (fusion_engine w)
            \<lparr>active_jobs := (active_jobs (fusion_engine w))(job_id \<mapsto> stored)\<rparr>\<rparr>)
       = \<lparr>body = mock_result job_id, status_code = 200\<rparr>
   \<and> get_job_status job_id (snd (process_multimodal_scene req w)) = get_job_status job_id w
   \<and> subscript (mock_result job_id) ''status'' = Inr (JStr ''completed'')
   \<and> subscript (mock_result job_id) ''progress'' = Inr (JInt 100)
   \<and> mock_result job_id =
       JDict [(''job_id'', JStr job_id),
              (''status'', JStr ''completed''),
              (''progress'', JInt 100),
              (''result'',
                 JDict [(''scene_id'', JStr ''scene-001''),
                        (''outputs'',
                           JDict [(''video'', JStr ''https://example.com/generated-video.mp4''),
                                  (''audio'', JStr ''https://example.com/generated-audio.mp3''),
                                  (''metadata'',
                                     JDict [(''emotion_accuracy'', JFloat (decimal 94 2)),
                                            (''visual_quality'', JFloat (decimal 91 2)),
                                            (''audio_sync'', JFloat (decimal 96 2))])]),
                        (''processing_time'', JFloat (decimal 253 1))])]"
  by (auto simp: get_job_status_def process_world mock_result_def)

theorem get_job_status_fixed_witness:
  "get_job_status ''u''
     (snd (generate_multimodal (body_with_intensity (JFloat (decimal 8 1))) example_world))
     = \<lparr>body = mock_result ''u'', status_code = 200\<rparr>
   \<and> get_job_status ''u'' example_world
     = \<lparr>body = JDict [(''error'', JStr ''Job not found'')], status_code = 404\<rparr>"
proof -
  from generate_example_accepted have "''u'' \<in> dom (active_jobs (fusion_engine
      (snd (generate_multimodal (body_with_intensity (JFloat (decimal 8 1))) example_world))))"
    by (simp add: register_job_def)
  moreover have "''u'' \<notin> dom (active_jobs (fusion_engine example_world))"
    by (simp add: example_world_def initial_world_def ModelFusionEngine_init_def)
  ultimately show ?thesis
    using get_job_status_fixed [of "''u''" example_world]
      get_job_status_fixed [of "''u''"
        "snd (generate_multimodal (body_with_intensity (JFloat (decimal 8 1))) example_world)"]
    by simp
qed

end
